theory Spec2Isabelle
  imports Complex_Main "HOL-Library.Product_Lexorder"
begin

section \<open>Errors\<close>

datatype py_error =
  NameError | AttributeError | TypeError | ValueError | ZeroDivisionError | KeyError | OverflowError

section \<open>Dates\<close>

text \<open>
  A naive \<open>datetime\<close> is the number of microseconds since 0001-01-01T00:00:00, the
  resolution of Python's \<open>datetime\<close>. The first day of the calendar is a Monday, so
  \<open>date.weekday()\<close> is the day number modulo 7 with Monday = 0. The last \<open>datetime\<close> is
  9999-12-31T23:59:59.999999, the last microsecond of day 3652058.

  \<open>timedelta(days=k)\<close> raises \<open>OverflowError\<close> unless \<open>k\<close> has magnitude at most
  999999999, and the sum of a \<open>datetime\<close> and a \<open>timedelta\<close> raises \<open>OverflowError\<close>
  when it is not a \<open>datetime\<close>.
\<close>

type_synonym datetime = int

definition DAY :: int where
  "DAY = 86400000000"

definition MAX_DATETIME :: datetime where
  "MAX_DATETIME = 3652059 * DAY - 1"

definition valid_datetime :: "datetime \<Rightarrow> bool" where
  "valid_datetime d = (0 \<le> d \<and> d \<le> MAX_DATETIME)"

definition timedelta_days :: "int \<Rightarrow> int" where
  "timedelta_days k = k * DAY"

definition add_days :: "datetime \<Rightarrow> int \<Rightarrow> py_error + datetime" where
  "add_days d k =
     (if \<bar>k\<bar> > 999999999 then Inl OverflowError
      else if valid_datetime (d + timedelta_days k) then Inr (d + timedelta_days k)
      else Inl OverflowError)"

definition weekday :: "datetime \<Rightarrow> int" where
  "weekday d = (d div DAY) mod 7"

section \<open>Floats\<close>

text \<open>
  A Python \<open>float\<close> is an IEEE 754 double: a finite double, an infinity or a NaN.
  \<open>Finite x\<close> is the double of value \<open>x\<close>. The sign of a zero is not kept: no
  operation of the program tells the two zeros apart, a division by either raises.
  \<open>rd\<close> rounds a real to the nearest number with a 53-bit significand and an exponent
  of at least -1022, ties to the even significand; every operation rounds its exact
  result, and a result beyond the largest double is an infinity.
\<close>

datatype pyfloat = Finite real | PInf | NInf | NaN

definition MAX_FLOAT :: real where
  "MAX_FLOAT = (2 ^ 53 - 1) * 2 ^ 971"

definition round_half_even :: "real \<Rightarrow> int" where
  "round_half_even q =
     (let f = \<lfloor>q\<rfloor>
      in if q - of_int f < 1 / 2 then f
         else if q - of_int f > 1 / 2 then f + 1
         else if even f then f else f + 1)"

definition ulp_exponent :: "real \<Rightarrow> int" where
  "ulp_exponent x = max \<lfloor>log 2 \<bar>x\<bar>\<rfloor> (- 1022) - 52"

definition rd :: "real \<Rightarrow> real" where
  "rd x =
     (if x = 0 then 0
      else of_int (round_half_even (x / 2 powi ulp_exponent x)) * 2 powi ulp_exponent x)"

definition round_result :: "real \<Rightarrow> pyfloat" where
  "round_result x =
     (if rd x > MAX_FLOAT then PInf else if rd x < - MAX_FLOAT then NInf else Finite (rd x))"

fun fneg :: "pyfloat \<Rightarrow> pyfloat" where
  "fneg (Finite a) = Finite (- a)"
| "fneg PInf = NInf"
| "fneg NInf = PInf"
| "fneg NaN = NaN"

fun fadd :: "pyfloat \<Rightarrow> pyfloat \<Rightarrow> pyfloat" where
  "fadd (Finite a) (Finite b) = round_result (a + b)"
| "fadd NaN y = NaN"
| "fadd x NaN = NaN"
| "fadd PInf NInf = NaN"
| "fadd NInf PInf = NaN"
| "fadd PInf y = PInf"
| "fadd NInf y = NInf"
| "fadd x PInf = PInf"
| "fadd x NInf = NInf"

definition fsub :: "pyfloat \<Rightarrow> pyfloat \<Rightarrow> pyfloat" where
  "fsub x y = fadd x (fneg y)"

text \<open>The sign of a float that is not a NaN and not zero; 0 for a zero.\<close>

fun fsign :: "pyfloat \<Rightarrow> int" where
  "fsign (Finite a) = (if a > 0 then 1 else if a < 0 then - 1 else 0)"
| "fsign PInf = 1"
| "fsign NInf = - 1"
| "fsign NaN = 0"

definition signed_inf :: "int \<Rightarrow> pyfloat" where
  "signed_inf s = (if s > 0 then PInf else NInf)"

fun fmul :: "pyfloat \<Rightarrow> pyfloat \<Rightarrow> pyfloat" where
  "fmul (Finite a) (Finite b) = round_result (a * b)"
| "fmul NaN y = NaN"
| "fmul x NaN = NaN"
| "fmul x y = (if fsign x * fsign y = 0 then NaN else signed_inf (fsign x * fsign y))"

text \<open>\<open>x / y\<close> on floats raises \<open>ZeroDivisionError\<close> when the divisor is zero.\<close>

fun fdiv :: "pyfloat \<Rightarrow> pyfloat \<Rightarrow> py_error + pyfloat" where
  "fdiv x (Finite b) =
     (if b = 0 then Inl ZeroDivisionError
      else case x of
             Finite a \<Rightarrow> Inr (round_result (a / b))
           | NaN \<Rightarrow> Inr NaN
           | _ \<Rightarrow> Inr (signed_inf (fsign x * fsign (Finite b))))"
| "fdiv x NaN = Inr NaN"
| "fdiv (Finite a) y = Inr (Finite 0)"
| "fdiv x y = Inr NaN"

text \<open>\<open>x < y\<close> on floats: false when either is a NaN.\<close>

fun flt :: "pyfloat \<Rightarrow> pyfloat \<Rightarrow> bool" where
  "flt (Finite a) (Finite b) = (a < b)"
| "flt NaN y = False"
| "flt x NaN = False"
| "flt NInf NInf = False"
| "flt NInf y = True"
| "flt x NInf = False"
| "flt PInf y = False"
| "flt x PInf = True"

text \<open>
  An \<open>int\<close> that meets a \<open>float\<close> in an arithmetic operation is converted, rounded,
  and \<open>OverflowError\<close> is raised when it is too large. \<open>int(x)\<close> truncates toward zero
  and raises on an infinity or a NaN. The true division of two \<open>int\<close>s is the rounded
  quotient, with \<open>OverflowError\<close> when it is too large for a float.
\<close>

definition float_of_int :: "int \<Rightarrow> py_error + pyfloat" where
  "float_of_int n =
     (case round_result (of_int n) of Finite y \<Rightarrow> Inr (Finite y) | _ \<Rightarrow> Inl OverflowError)"

fun py_int :: "pyfloat \<Rightarrow> py_error + int" where
  "py_int (Finite x) = Inr (if 0 \<le> x then \<lfloor>x\<rfloor> else \<lceil>x\<rceil>)"
| "py_int NaN = Inl ValueError"
| "py_int x = Inl OverflowError"

definition int_true_div :: "int \<Rightarrow> int \<Rightarrow> py_error + pyfloat" where
  "int_true_div a b =
     (if b = 0 then Inl ZeroDivisionError
      else case round_result (of_int a / of_int b) of
             Finite y \<Rightarrow> Inr (Finite y)
           | _ \<Rightarrow> Inl OverflowError)"

text \<open>
  \<open>max(0.0, min(1.0, x))\<close>: \<open>min\<close> gives its second argument when it is less than the
  first, \<open>max\<close> its second argument when it is greater than the first.
\<close>

definition clamp01 :: "pyfloat \<Rightarrow> pyfloat" where
  "clamp01 x =
     (let m = (if flt x (Finite 1) then x else Finite 1)
      in if flt (Finite 0) m then m else Finite 0)"

text \<open>\<open>sum\<close> over floats adds from the left, starting from 0.\<close>

definition py_sum :: "pyfloat list \<Rightarrow> pyfloat" where
  "py_sum xs = fold (\<lambda>x acc. fadd acc x) xs (Finite 0)"

text \<open>
  A number that is an \<open>int\<close> or a float as the program runs: the completion percentage
  of a task, which starts as the \<open>int\<close> 0. Two \<open>int\<close>s are multiplied and added
  exactly; an \<open>int\<close> that meets a float is converted first.
\<close>

datatype pynum = PyInt int | PyFloat pyfloat

fun num_mul_int :: "pynum \<Rightarrow> int \<Rightarrow> py_error + pynum" where
  "num_mul_int (PyInt a) b = Inr (PyInt (a * b))"
| "num_mul_int (PyFloat x) b =
     (case float_of_int b of Inl e \<Rightarrow> Inl e | Inr fb \<Rightarrow> Inr (PyFloat (fmul x fb)))"

fun num_add :: "pynum \<Rightarrow> pynum \<Rightarrow> py_error + pynum" where
  "num_add (PyInt a) (PyInt b) = Inr (PyInt (a + b))"
| "num_add (PyInt a) (PyFloat y) =
     (case float_of_int a of Inl e \<Rightarrow> Inl e | Inr fa \<Rightarrow> Inr (PyFloat (fadd fa y)))"
| "num_add (PyFloat x) (PyInt b) =
     (case float_of_int b of Inl e \<Rightarrow> Inl e | Inr fb \<Rightarrow> Inr (PyFloat (fadd x fb)))"
| "num_add (PyFloat x) (PyFloat y) = Inr (PyFloat (fadd x y))"

fun num_div_int :: "pynum \<Rightarrow> int \<Rightarrow> py_error + pyfloat" where
  "num_div_int (PyInt a) b = int_true_div a b"
| "num_div_int (PyFloat x) b =
     (case float_of_int b of Inl e \<Rightarrow> Inl e | Inr fb \<Rightarrow> fdiv x fb)"

fun num_eq_int :: "pynum \<Rightarrow> int \<Rightarrow> bool" where
  "num_eq_int (PyInt a) b = (a = b)"
| "num_eq_int (PyFloat (Finite x)) b = (x = of_int b)"
| "num_eq_int (PyFloat x) b = False"

section \<open>utils/utilities.py\<close>

definition is_working_day :: "datetime \<Rightarrow> bool" where
  "is_working_day date = (weekday date < 5)"

function get_working_days_loop :: "datetime \<Rightarrow> datetime \<Rightarrow> int \<Rightarrow> py_error + int" where
  "get_working_days_loop current_date end_date days =
     (if current_date \<le> end_date
      then (let days' = (if weekday current_date < 5 then days + 1 else days)
            in case add_days current_date 1 of
                 Inl e \<Rightarrow> Inl e
               | Inr current_date' \<Rightarrow> get_working_days_loop current_date' end_date days')
      else Inr days)"
  by pat_completeness auto
termination
  by (relation "measure (\<lambda>(c, e, n). nat (e + 1 - c))")
     (auto simp: add_days_def timedelta_days_def DAY_def split: if_splits)

definition get_working_days :: "datetime \<Rightarrow> datetime \<Rightarrow> py_error + int" where
  "get_working_days start_date end_date = get_working_days_loop start_date end_date 0"

function add_working_days_loop :: "datetime \<Rightarrow> int \<Rightarrow> py_error + datetime" where
  "add_working_days_loop current_date remaining_days =
     (if remaining_days > 0
      then (case add_days current_date 1 of
              Inl e \<Rightarrow> Inl e
            | Inr current_date' \<Rightarrow>
                if weekday current_date' < 5
                then add_working_days_loop current_date' (remaining_days - 1)
                else add_working_days_loop current_date' remaining_days)
      else Inr current_date)"
  by pat_completeness auto
termination
  by (relation "measure (\<lambda>(c, r). nat (MAX_DATETIME + 1 - c))")
     (auto simp: add_days_def valid_datetime_def timedelta_days_def DAY_def MAX_DATETIME_def
        split: if_splits)

definition add_working_days :: "datetime \<Rightarrow> int \<Rightarrow> py_error + datetime" where
  "add_working_days date days = add_working_days_loop date days"

function get_date_range_loop ::
  "datetime \<Rightarrow> datetime \<Rightarrow> datetime list \<Rightarrow> py_error + datetime list" where
  "get_date_range_loop current_date end_date dates =
     (if current_date \<le> end_date
      then (case add_days current_date 1 of
              Inl e \<Rightarrow> Inl e
            | Inr current_date' \<Rightarrow>
                get_date_range_loop current_date' end_date (dates @ [current_date]))
      else Inr dates)"
  by pat_completeness auto
termination
  by (relation "measure (\<lambda>(c, e, n). nat (e + 1 - c))")
     (auto simp: add_days_def timedelta_days_def DAY_def split: if_splits)

definition get_date_range :: "datetime \<Rightarrow> datetime \<Rightarrow> py_error + datetime list" where
  "get_date_range start_date end_date = get_date_range_loop start_date end_date []"


section \<open>The object store\<close>

text \<open>
  Tasks and resources are Python objects, compared by identity (neither class defines
  \<open>__eq__\<close>): a reference is an address, and the store maps each address to the
  object's fields. An assignment is the dict \<open>Task.assign_resource\<close> builds; dicts
  compare by value, and no function modelled here writes into one after it is built.
  The fields annotated \<open>float\<close> hold floats.
\<close>

type_synonym ref = nat

record assignment =
  a_resource :: ref
  units :: pyfloat
  a_start_date :: datetime
  a_end_date :: datetime
  hours :: pyfloat

record task =
  task_id :: int
  name :: string
  duration :: int
  start_date :: "datetime option"
  completion_percentage :: pynum
  priority :: int
  task_notes :: string
  predecessors :: "ref list"
  successors :: "ref list"
  assignments :: "assignment list"
  early_start :: int
  early_finish :: int
  late_start :: int
  late_finish :: int

record resource =
  resource_id :: int
  resource_name :: string
  cost_rate :: pyfloat
  availability :: pyfloat
  resource_assignments :: "assignment list"
  calendar :: "datetime \<rightharpoonup> pyfloat"
  skills :: "string list"

record project =
  project_name :: string
  project_start_date :: datetime
  tasks :: "ref list"
  resources :: "ref list"
  modified :: bool

record store =
  task_of :: "ref \<Rightarrow> task"
  resource_of :: "ref \<Rightarrow> resource"
  project_of :: project

definition upd_task :: "ref \<Rightarrow> (task \<Rightarrow> task) \<Rightarrow> store \<Rightarrow> store" where
  "upd_task t f s = s\<lparr>task_of := (task_of s)(t := f (task_of s t))\<rparr>"

definition upd_resource :: "ref \<Rightarrow> (resource \<Rightarrow> resource) \<Rightarrow> store \<Rightarrow> store" where
  "upd_resource r f s = s\<lparr>resource_of := (resource_of s)(r := f (resource_of s r))\<rparr>"

text \<open>
  \<open>Resource.get_utilization\<close> and \<open>Resource._update_calendar\<close> (models/resource.py),
  \<open>ProjectController.level_resources\<close> and \<open>ProjectController.find_resource_conflicts\<close>
  (controllers/project_controller.py) use the name \<open>timedelta\<close>, and neither module
  imports it: both have \<open>from datetime import datetime\<close> only. Python looks a global
  name up when the statement runs, so these statements raise \<open>NameError\<close> unless the
  module's namespace has been given the name. \<open>module_globals\<close> says, for each of the two
  modules, whether \<open>timedelta\<close> resolves (to \<open>datetime.timedelta\<close>); \<open>as_written\<close> is
  the repository as it is.
\<close>

record module_globals =
  resource_timedelta :: bool
  controller_timedelta :: bool

definition as_written :: module_globals where
  "as_written = \<lparr>resource_timedelta = False, controller_timedelta = False\<rparr>"

section \<open>models/task.py\<close>

definition Task_init :: "int \<Rightarrow> string \<Rightarrow> int \<Rightarrow> datetime option \<Rightarrow> task" where
  "Task_init next_id nm dur start =
     \<lparr>task_id = next_id, name = nm, duration = dur, start_date = start,
      completion_percentage = PyInt 0, priority = 0, task_notes = [],
      predecessors = [], successors = [], assignments = [],
      early_start = 0, early_finish = 0, late_start = 0, late_finish = 0\<rparr>"

definition add_predecessor :: "ref \<Rightarrow> ref \<Rightarrow> store \<Rightarrow> store" where
  "add_predecessor self t s =
     (if t \<notin> set (predecessors (task_of s self))
      then (let s1 = upd_task self (\<lambda>x. x\<lparr>predecessors := predecessors x @ [t]\<rparr>) s
            in upd_task t (\<lambda>x. x\<lparr>successors := successors x @ [self]\<rparr>) s1)
      else s)"

definition remove_predecessor :: "ref \<Rightarrow> ref \<Rightarrow> store \<Rightarrow> store" where
  "remove_predecessor self t s =
     (if t \<in> set (predecessors (task_of s self))
      then (let s1 = upd_task self (\<lambda>x. x\<lparr>predecessors := remove1 t (predecessors x)\<rparr>) s
            in upd_task t (\<lambda>x. x\<lparr>successors := remove1 self (successors x)\<rparr>) s1)
      else s)"

text \<open>
  \<open>get_end_date\<close>: \<open>None\<close> for a task with no start date; otherwise the start date plus
  \<open>timedelta(days=self.duration)\<close>, which raises \<open>OverflowError\<close> when the duration is
  too large for a \<open>timedelta\<close> or the sum is not a \<open>datetime\<close>.
\<close>

definition get_end_date :: "task \<Rightarrow> py_error + datetime option" where
  "get_end_date self =
     (case start_date self of
        None \<Rightarrow> Inr None
      | Some d \<Rightarrow>
          (case add_days d (duration self) of
             Inl e \<Rightarrow> Inl e
           | Inr end_d \<Rightarrow> Inr (Some end_d)))"

text \<open>
  \<open>Task.get_working_days\<close> is the loop of \<open>get_working_days\<close> of utils/utilities.py,
  statement for statement; the one function stands for both. The hours are
  \<open>working_days * 8 * units\<close>: an \<open>int\<close> times a float.
\<close>

definition calculate_assignment_hours :: "pyfloat \<Rightarrow> datetime \<Rightarrow> datetime \<Rightarrow> py_error + pyfloat" where
  "calculate_assignment_hours u start_d end_d =
     (case get_working_days start_d end_d of
        Inl e \<Rightarrow> Inl e
      | Inr working_days \<Rightarrow>
          (case float_of_int (working_days * 8) of
             Inl e \<Rightarrow> Inl e
           | Inr h \<Rightarrow> Inr (fmul h u)))"

definition get_cost :: "store \<Rightarrow> task \<Rightarrow> pyfloat" where
  "get_cost s self =
     py_sum (map (\<lambda>a. fmul (cost_rate (resource_of s (a_resource a))) (hours a)) (assignments self))"

text \<open>
  \<open>min(100, max(0, completion_percentage))\<close> of a float: \<open>max\<close> gives the float when
  it is greater than 0 and the \<open>int\<close> 0 otherwise, \<open>min\<close> gives that when it is less
  than 100 and the \<open>int\<close> 100 otherwise.
\<close>

definition update_progress :: "pyfloat \<Rightarrow> task \<Rightarrow> task" where
  "update_progress p self =
     self\<lparr>completion_percentage :=
            (if flt (Finite 0) p then (if flt p (Finite 100) then PyFloat p else PyInt 100)
             else PyInt 0)\<rparr>"

definition get_float :: "task \<Rightarrow> int" where
  "get_float self = late_start self - early_start self"

definition is_critical :: "task \<Rightarrow> bool" where
  "is_critical self = (get_float self = 0)"

section \<open>models/resource.py\<close>

definition Resource_init :: "int \<Rightarrow> string \<Rightarrow> pyfloat \<Rightarrow> pyfloat \<Rightarrow> resource" where
  "Resource_init next_id nm rate avail =
     \<lparr>resource_id = next_id, resource_name = nm, cost_rate = rate, availability = avail,
      resource_assignments = [], calendar = Map.empty, skills = []\<rparr>"

definition get_availability :: "resource \<Rightarrow> datetime \<Rightarrow> pyfloat" where
  "get_availability self date =
     (case calendar self date of
        Some v \<Rightarrow> v
      | None \<Rightarrow> if weekday date < 5 then availability self else Finite 0)"

definition set_custom_availability :: "datetime \<Rightarrow> pyfloat \<Rightarrow> resource \<Rightarrow> resource" where
  "set_custom_availability date a self =
     self\<lparr>calendar := (calendar self)(date \<mapsto> clamp01 a)\<rparr>"

definition clear_custom_availability :: "datetime \<Rightarrow> resource \<Rightarrow> resource" where
  "clear_custom_availability date self =
     (if date \<in> dom (calendar self) then self\<lparr>calendar := (calendar self)(date := None)\<rparr> else self)"

text \<open>
  One pass of the body of the loop in \<open>_update_calendar\<close>: the entry is created from the
  base availability when the date has none, the units are subtracted, and the entry is
  clamped to [0, 1].
\<close>

definition update_calendar_day :: "pyfloat \<Rightarrow> datetime \<Rightarrow> resource \<Rightarrow> resource" where
  "update_calendar_day u current_date self =
     (let c0 = (case calendar self current_date of None \<Rightarrow> availability self | Some c \<Rightarrow> c)
      in self\<lparr>calendar := (calendar self)(current_date \<mapsto> clamp01 (fsub c0 u))\<rparr>)"

function update_calendar_loop ::
  "module_globals \<Rightarrow> pyfloat \<Rightarrow> datetime \<Rightarrow> datetime \<Rightarrow> resource \<Rightarrow> (py_error + unit) \<times> resource" where
  "update_calendar_loop g u current_date end_date self =
     (if current_date \<le> end_date
      then (let self' = update_calendar_day u current_date self
            in if resource_timedelta g
               then (case add_days current_date 1 of
                       Inl e \<Rightarrow> (Inl e, self')
                     | Inr current_date' \<Rightarrow> update_calendar_loop g u current_date' end_date self')
               else (Inl NameError, self'))
      else (Inr (), self))"
  by pat_completeness auto
termination
  by (relation "measure (\<lambda>(g, u, c, e, r). nat (e + 1 - c))")
     (auto simp: add_days_def timedelta_days_def DAY_def split: if_splits)

definition update_calendar ::
  "module_globals \<Rightarrow> assignment \<Rightarrow> bool \<Rightarrow> resource \<Rightarrow> (py_error + unit) \<times> resource" where
  "update_calendar g a remove self =
     update_calendar_loop g (if remove then fneg (units a) else units a)
       (a_start_date a) (a_end_date a) self"

definition add_assignment ::
  "module_globals \<Rightarrow> assignment \<Rightarrow> resource \<Rightarrow> (py_error + unit) \<times> resource" where
  "add_assignment g a self =
     update_calendar g a False (self\<lparr>resource_assignments := resource_assignments self @ [a]\<rparr>)"

definition remove_assignment ::
  "module_globals \<Rightarrow> assignment \<Rightarrow> resource \<Rightarrow> (py_error + unit) \<times> resource" where
  "remove_assignment g a self =
     (if a \<in> set (resource_assignments self)
      then update_calendar g a True
             (self\<lparr>resource_assignments := remove1 a (resource_assignments self)\<rparr>)
      else (Inr (), self))"

definition assigned_hours :: "resource \<Rightarrow> datetime \<Rightarrow> pyfloat" where
  "assigned_hours self current_date =
     py_sum (map (\<lambda>a. fmul (units a) (Finite 8))
               (filter (\<lambda>a. a_start_date a \<le> current_date \<and> current_date \<le> a_end_date a)
                  (resource_assignments self)))"

function get_utilization_loop ::
  "module_globals \<Rightarrow> resource \<Rightarrow> datetime \<Rightarrow> datetime \<Rightarrow> pyfloat \<Rightarrow> pyfloat \<Rightarrow>
     py_error + pyfloat \<times> pyfloat" where
  "get_utilization_loop g self current_date end_date total_available_hours total_assigned_hours =
     (if current_date \<le> end_date
      then (let total_available_hours' =
                  fadd total_available_hours (fmul (get_availability self current_date) (Finite 8));
                total_assigned_hours' = fadd total_assigned_hours (assigned_hours self current_date)
            in if resource_timedelta g
               then (case add_days current_date 1 of
                       Inl e \<Rightarrow> Inl e
                     | Inr current_date' \<Rightarrow>
                         get_utilization_loop g self current_date' end_date
                           total_available_hours' total_assigned_hours')
               else Inl NameError)
      else Inr (total_available_hours, total_assigned_hours))"
  by pat_completeness auto
termination
  by (relation "measure (\<lambda>(g, r, c, e, a, b). nat (e + 1 - c))")
     (auto simp: add_days_def timedelta_days_def DAY_def split: if_splits)

definition get_utilization ::
  "module_globals \<Rightarrow> resource \<Rightarrow> datetime \<Rightarrow> datetime \<Rightarrow> py_error + pyfloat" where
  "get_utilization g self start_d end_d =
     (case get_utilization_loop g self start_d end_d (Finite 0) (Finite 0) of
        Inl e \<Rightarrow> Inl e
      | Inr (total_available_hours, total_assigned_hours) \<Rightarrow>
          if flt (Finite 0) total_available_hours
          then fdiv total_assigned_hours total_available_hours
          else Inr (Finite 0))"

text \<open>
  \<open>Task.assign_resource\<close> and \<open>Task.remove_resource\<close> work on a task and a resource of
  the store. The hours are computed first; an exception there leaves the store as it
  was. An exception of the resource's method leaves what was written before it.
\<close>

definition assign_resource ::
  "module_globals \<Rightarrow> ref \<Rightarrow> ref \<Rightarrow> pyfloat \<Rightarrow> datetime \<Rightarrow> datetime \<Rightarrow> store \<Rightarrow> (py_error + unit) \<times> store" where
  "assign_resource g self r u start_d end_d s =
     (case calculate_assignment_hours u start_d end_d of
        Inl e \<Rightarrow> (Inl e, s)
      | Inr h \<Rightarrow>
          (let a = \<lparr>a_resource = r, units = u, a_start_date = start_d, a_end_date = end_d, hours = h\<rparr>;
               s1 = upd_task self (\<lambda>x. x\<lparr>assignments := assignments x @ [a]\<rparr>) s;
               (res, r') = add_assignment g a (resource_of s1 r)
           in (res, s1\<lparr>resource_of := (resource_of s1)(r := r')\<rparr>)))"

fun remove_resource_loop ::
  "module_globals \<Rightarrow> ref \<Rightarrow> ref \<Rightarrow> assignment list \<Rightarrow> store \<Rightarrow> (py_error + unit) \<times> store" where
  "remove_resource_loop g self r [] s = (Inr (), s)"
| "remove_resource_loop g self r (a # as) s =
     (let s1 = upd_task self (\<lambda>x. x\<lparr>assignments := remove1 a (assignments x)\<rparr>) s;
          (res, r') = remove_assignment g a (resource_of s1 r);
          s2 = s1\<lparr>resource_of := (resource_of s1)(r := r')\<rparr>
      in case res of Inl e \<Rightarrow> (Inl e, s2) | Inr _ \<Rightarrow> remove_resource_loop g self r as s2)"

definition remove_resource ::
  "module_globals \<Rightarrow> ref \<Rightarrow> ref \<Rightarrow> store \<Rightarrow> (py_error + unit) \<times> store" where
  "remove_resource g self r s =
     remove_resource_loop g self r
       (filter (\<lambda>a. a_resource a = r) (assignments (task_of s self))) s"

section \<open>models/project.py\<close>

definition add_task :: "ref \<Rightarrow> project \<Rightarrow> project" where
  "add_task t self = self\<lparr>tasks := tasks self @ [t], modified := True\<rparr>"

definition remove_task :: "ref \<Rightarrow> project \<Rightarrow> project" where
  "remove_task t self =
     (if t \<in> set (tasks self) then self\<lparr>tasks := remove1 t (tasks self), modified := True\<rparr>
      else self)"

definition add_resource :: "ref \<Rightarrow> project \<Rightarrow> project" where
  "add_resource r self = self\<lparr>resources := resources self @ [r], modified := True\<rparr>"

definition remove_resource_of_project :: "ref \<Rightarrow> project \<Rightarrow> project" where
  "remove_resource_of_project r self =
     (if r \<in> set (resources self)
      then self\<lparr>resources := remove1 r (resources self), modified := True\<rparr>
      else self)"

text \<open>Python's \<open>max\<close> over a generator: \<open>ValueError\<close> on an empty one.\<close>

fun py_max :: "int list \<Rightarrow> py_error + int" where
  "py_max [] = Inl ValueError"
| "py_max (x # xs) = Inr (fold max xs x)"

text \<open>
  \<open>max(task.get_end_date() for task in ...)\<close>. The generator computes an end date when
  \<open>max\<close> asks for it, so an exception of \<open>get_end_date\<close> comes at its place in the
  order. The first item is taken with no comparison; every later one is compared with
  the largest so far, and a comparison with \<open>None\<close> raises \<open>TypeError\<close>.
\<close>

fun max_end_date_loop :: "store \<Rightarrow> datetime option \<Rightarrow> ref list \<Rightarrow> py_error + datetime option" where
  "max_end_date_loop s max_val [] = Inr max_val"
| "max_end_date_loop s max_val (t # ts) =
     (case get_end_date (task_of s t) of
        Inl e \<Rightarrow> Inl e
      | Inr item \<Rightarrow>
          (case (item, max_val) of
             (Some a, Some b) \<Rightarrow> max_end_date_loop s (if a > b then item else max_val) ts
           | _ \<Rightarrow> Inl TypeError))"

fun max_end_date :: "store \<Rightarrow> ref list \<Rightarrow> py_error + datetime option" where
  "max_end_date s [] = Inl ValueError"
| "max_end_date s (t # ts) =
     (case get_end_date (task_of s t) of
        Inl e \<Rightarrow> Inl e
      | Inr item \<Rightarrow> max_end_date_loop s item ts)"

definition init_early :: "ref \<Rightarrow> store \<Rightarrow> store" where
  "init_early t s = upd_task t (\<lambda>x. x\<lparr>early_start := 0, early_finish := duration x\<rparr>) s"

definition forward_relax :: "ref \<Rightarrow> ref \<Rightarrow> store \<Rightarrow> store" where
  "forward_relax t successor s =
     (if early_start (task_of s successor) < early_finish (task_of s t)
      then (let s1 = upd_task successor (\<lambda>x. x\<lparr>early_start := early_finish (task_of s t)\<rparr>) s
            in upd_task successor (\<lambda>x. x\<lparr>early_finish := early_start x + duration x\<rparr>) s1)
      else s)"

definition forward_pass :: "store \<Rightarrow> store" where
  "forward_pass s =
     fold (\<lambda>t s'. fold (forward_relax t) (successors (task_of s' t)) s') (tasks (project_of s)) s"

definition init_late :: "int \<Rightarrow> ref \<Rightarrow> store \<Rightarrow> store" where
  "init_late project_duration t s =
     (let s1 = upd_task t (\<lambda>x. x\<lparr>late_finish := project_duration\<rparr>) s
      in upd_task t (\<lambda>x. x\<lparr>late_start := late_finish x - duration x\<rparr>) s1)"

definition backward_relax :: "ref \<Rightarrow> ref \<Rightarrow> store \<Rightarrow> store" where
  "backward_relax t predecessor s =
     (if late_finish (task_of s predecessor) > late_start (task_of s t)
      then (let s1 = upd_task predecessor (\<lambda>x. x\<lparr>late_finish := late_start (task_of s t)\<rparr>) s
            in upd_task predecessor (\<lambda>x. x\<lparr>late_start := late_finish x - duration x\<rparr>) s1)
      else s)"

definition backward_pass :: "store \<Rightarrow> store" where
  "backward_pass s =
     fold (\<lambda>t s'. fold (backward_relax t) (predecessors (task_of s' t)) s')
       (rev (tasks (project_of s))) s"

definition calculate_critical_path :: "store \<Rightarrow> (py_error + ref list) \<times> store" where
  "calculate_critical_path s =
     (let ts = tasks (project_of s);
          s1 = fold init_early ts s;
          s2 = forward_pass s1
      in case py_max (map (\<lambda>t. early_finish (task_of s2 t)) ts) of
           Inl e \<Rightarrow> (Inl e, s2)
         | Inr project_duration \<Rightarrow>
             (let s3 = fold (init_late project_duration) ts s2;
                  s4 = backward_pass s3
              in (Inr (filter (\<lambda>t. late_start (task_of s4 t) - early_start (task_of s4 t) = 0) ts),
                  s4)))"

text \<open>\<open>(latest_finish - self.start_date).days\<close> is the floor of the difference in days.\<close>

definition get_project_duration :: "store \<Rightarrow> py_error + int" where
  "get_project_duration s =
     (if tasks (project_of s) = [] then Inr 0
      else case max_end_date s (tasks (project_of s)) of
             Inl e \<Rightarrow> Inl e
           | Inr None \<Rightarrow> Inl TypeError
           | Inr (Some latest_finish) \<Rightarrow>
               Inr ((latest_finish - project_start_date (project_of s)) div DAY))"

definition get_total_cost :: "store \<Rightarrow> pyfloat" where
  "get_total_cost s = py_sum (map (\<lambda>t. get_cost s (task_of s t)) (tasks (project_of s)))"

text \<open>
  \<open>get_resource_utilization\<close> reads \<open>assignment.hours\<close>, an attribute, of a dict: the
  first assignment of a resource raises \<open>AttributeError\<close>. With no assignment the total
  is the \<open>int\<close> 0. The dict it returns is keyed by the resource objects.
\<close>

fun get_resource_utilization_loop ::
  "store \<Rightarrow> ref list \<Rightarrow> (ref \<rightharpoonup> pyfloat) \<Rightarrow> py_error + (ref \<rightharpoonup> pyfloat)" where
  "get_resource_utilization_loop s [] utilization = Inr utilization"
| "get_resource_utilization_loop s (r # rs) utilization =
     (if resource_assignments (resource_of s r) \<noteq> [] then Inl AttributeError
      else (let total_hours = Finite 0;
                hours_a_day = fmul (availability (resource_of s r)) (Finite 8)
            in case get_project_duration s of
                 Inl e \<Rightarrow> Inl e
               | Inr d \<Rightarrow>
                   (case float_of_int d of
                      Inl e \<Rightarrow> Inl e
                    | Inr fd \<Rightarrow>
                        (let available_hours = fmul hours_a_day fd
                         in case (if flt (Finite 0) available_hours
                                  then fdiv total_hours available_hours else Inr (Finite 0)) of
                              Inl e \<Rightarrow> Inl e
                            | Inr u \<Rightarrow>
                                get_resource_utilization_loop s rs (utilization(r \<mapsto> u))))))"

definition get_resource_utilization :: "store \<Rightarrow> py_error + (ref \<rightharpoonup> pyfloat)" where
  "get_resource_utilization s = get_resource_utilization_loop s (resources (project_of s)) Map.empty"

section \<open>controllers/project_controller.py\<close>

text \<open>
  The controller holds the project, with every object reachable from it, and the two
  stacks of deep copies. A method returns its result, or the exception it raised, and
  the controller as the call left it.
\<close>

record controller =
  proj :: store
  current_filename :: "string option"
  undo_stack :: "store list"
  redo_stack :: "store list"

definition save_state :: "controller \<Rightarrow> controller" where
  "save_state self = self\<lparr>undo_stack := undo_stack self @ [proj self], redo_stack := []\<rparr>"

definition delete_task :: "ref \<Rightarrow> controller \<Rightarrow> controller" where
  "delete_task t self =
     (let c = save_state self
      in c\<lparr>proj := (proj c)\<lparr>project_of := remove_task t (project_of (proj c))\<rparr>\<rparr>)"

definition delete_resource :: "ref \<Rightarrow> controller \<Rightarrow> controller" where
  "delete_resource r self =
     (let c = save_state self
      in c\<lparr>proj := (proj c)\<lparr>project_of := remove_resource_of_project r (project_of (proj c))\<rparr>\<rparr>)"

subsection \<open>level_resources\<close>

text \<open>
  The body of \<open>for task in resource_tasks\<close>. The delay is
  \<open>min(task.get_float(), int((utilization - 1) * task.duration))\<close>: the duration is
  converted to a float for the product. In \<open>task.start_date += timedelta(days=delay)\<close>
  the right-hand side is evaluated first, the name \<open>timedelta\<close> and then the call, and
  the addition raises \<open>TypeError\<close> on a start date that is \<open>None\<close>.
\<close>

definition shift_task :: "module_globals \<Rightarrow> pyfloat \<Rightarrow> ref \<Rightarrow> store \<Rightarrow> (py_error + unit) \<times> store" where
  "shift_task g utilization t s =
     (if get_float (task_of s t) > 0
      then (case float_of_int (duration (task_of s t)) of
              Inl e \<Rightarrow> (Inl e, s)
            | Inr fd \<Rightarrow>
          (case py_int (fmul (fsub utilization (Finite 1)) fd) of
              Inl e \<Rightarrow> (Inl e, s)
            | Inr n \<Rightarrow>
          (let delay = min (get_float (task_of s t)) n
           in if \<not> controller_timedelta g then (Inl NameError, s)
              else if \<bar>delay\<bar> > 999999999 then (Inl OverflowError, s)
              else case start_date (task_of s t) of
                     None \<Rightarrow> (Inl TypeError, s)
                   | Some d \<Rightarrow>
                       if valid_datetime (d + timedelta_days delay)
                       then (Inr (), upd_task t (\<lambda>x. x\<lparr>start_date := Some (d + timedelta_days delay)\<rparr>) s)
                       else (Inl OverflowError, s))))
      else (Inr (), s))"




subsection \<open>Analysis and reports\<close>

text \<open>
  The weighted completion is the \<open>sum\<close>, from the \<open>int\<close> 0, of
  \<open>completion_percentage * duration\<close>, and it is divided by the \<open>int\<close> sum of the
  durations.
\<close>

fun weighted_completion :: "store \<Rightarrow> ref list \<Rightarrow> pynum \<Rightarrow> py_error + pynum" where
  "weighted_completion s [] acc = Inr acc"
| "weighted_completion s (t # ts) acc =
     (case num_mul_int (completion_percentage (task_of s t)) (duration (task_of s t)) of
        Inl e \<Rightarrow> Inl e
      | Inr x \<Rightarrow>
          (case num_add acc x of
             Inl e \<Rightarrow> Inl e
           | Inr acc' \<Rightarrow> weighted_completion s ts acc'))"

definition calculate_project_completion :: "store \<Rightarrow> py_error + pyfloat" where
  "calculate_project_completion s =
     (if tasks (project_of s) = [] then Inr (Finite 0)
      else case weighted_completion s (tasks (project_of s)) (PyInt 0) of
             Inl e \<Rightarrow> Inl e
           | Inr weighted \<Rightarrow>
               (let total_duration = (\<Sum>t\<leftarrow>tasks (project_of s). duration (task_of s t))
                in if total_duration > 0 then num_div_int weighted total_duration
                   else Inr (Finite 0)))"

record conflict =
  conflict_date :: datetime
  conflict_resource :: ref
  conflict_assignments :: "assignment list"
  overallocation :: pyfloat

function find_resource_conflicts_days ::
  "module_globals \<Rightarrow> store \<Rightarrow> ref \<Rightarrow> datetime \<Rightarrow> datetime \<Rightarrow> conflict list \<Rightarrow> py_error + conflict list" where
  "find_resource_conflicts_days g s r current_date end_date conflicts =
     (if current_date \<le> end_date
      then (let daily_assignments =
                  concat (map (\<lambda>t. filter (\<lambda>a. a_resource a = r \<and> a_start_date a \<le> current_date
                                                  \<and> current_date \<le> a_end_date a)
                                       (assignments (task_of s t)))
                              (tasks (project_of s)));
                total_units = py_sum (map units daily_assignments);
                conflicts' =
                  (if flt (availability (resource_of s r)) total_units
                   then conflicts @ [\<lparr>conflict_date = current_date, conflict_resource = r,
                                       conflict_assignments = daily_assignments,
                                       overallocation = fsub total_units (availability (resource_of s r))\<rparr>]
                   else conflicts)
            in if controller_timedelta g
               then (case add_days current_date 1 of
                       Inl e \<Rightarrow> Inl e
                     | Inr current_date' \<Rightarrow>
                         find_resource_conflicts_days g s r current_date' end_date conflicts')
               else Inl NameError)
      else Inr conflicts)"
  by pat_completeness auto
termination
  by (relation "measure (\<lambda>(g, s, r, c, e, cs). nat (e + 1 - c))")
     (auto simp: add_days_def timedelta_days_def DAY_def split: if_splits)

fun find_resource_conflicts_loop ::
  "module_globals \<Rightarrow> store \<Rightarrow> ref list \<Rightarrow> conflict list \<Rightarrow> py_error + conflict list" where
  "find_resource_conflicts_loop g s [] conflicts = Inr conflicts"
| "find_resource_conflicts_loop g s (r # rs) conflicts =
     (case max_end_date s (tasks (project_of s)) of
        Inl e \<Rightarrow> Inl e
      | Inr None \<Rightarrow> Inl TypeError
      | Inr (Some end_date) \<Rightarrow>
          (case find_resource_conflicts_days g s r (project_start_date (project_of s)) end_date conflicts of
             Inl e \<Rightarrow> Inl e
           | Inr conflicts' \<Rightarrow> find_resource_conflicts_loop g s rs conflicts'))"

definition find_resource_conflicts ::
  "module_globals \<Rightarrow> controller \<Rightarrow> (py_error + conflict list) \<times> controller" where
  "find_resource_conflicts g self =
     (find_resource_conflicts_loop g (proj self) (resources (project_of (proj self))) [], self)"

text \<open>The decimal digits of a number, as \<open>str\<close> and an f-string print it.\<close>

function str_nat :: "nat \<Rightarrow> string" where
  "str_nat n = (if n < 10 then [char_of (48 + n)] else str_nat (n div 10) @ [char_of (48 + n mod 10)])"
  by pat_completeness auto
termination
  by (relation "measure id") auto

definition quoted :: "string \<Rightarrow> string" where
  "quoted nm = [CHR 0x27] @ nm @ [CHR 0x27]"

datatype risk =
    Critical_path_risk ref string
  | Resource_dependency_risk ref "ref list" string
  | Long_duration_risk ref string

text \<open>
  The three kinds of risk carry the impact the source gives them: high for a critical
  task, medium for the other two. The average duration is the true division of the sum
  of the durations by the number of tasks, and \<open>task.duration > 2 * avg_duration\<close>
  compares an \<open>int\<close> with a float.
\<close>

definition analyze_schedule_risks :: "controller \<Rightarrow> (py_error + risk list) \<times> controller" where
  "analyze_schedule_risks self =
     (case calculate_critical_path (proj self) of
        (Inl e, s) \<Rightarrow> (Inl e, self\<lparr>proj := s\<rparr>)
      | (Inr critical_path, s) \<Rightarrow>
          (let ts = tasks (project_of s);
               risks1 = map (\<lambda>t. Critical_path_risk t
                          (''Task '' @ quoted (name (task_of s t)) @
                           '' is on critical path with no slack time'')) critical_path;
               risks2 = concat (map (\<lambda>r.
                          (let resource_tasks =
                                 filter (\<lambda>t. list_ex (\<lambda>a. a_resource a = r) (assignments (task_of s t))) ts
                           in if length resource_tasks > 3
                              then [Resource_dependency_risk r resource_tasks
                                      (''Resource '' @ quoted (resource_name (resource_of s r)) @
                                       '' is assigned to '' @ str_nat (length resource_tasks) @ '' tasks'')]
                              else []))
                          (resources (project_of s)))
           in case int_true_div (\<Sum>t\<leftarrow>ts. duration (task_of s t)) (int (length ts)) of
                Inl e \<Rightarrow> (Inl e, self\<lparr>proj := s\<rparr>)
              | Inr avg_duration \<Rightarrow>
                  (let risks3 = map (\<lambda>t. Long_duration_risk t
                                   (''Task '' @ quoted (name (task_of s t)) @
                                    '' has unusually long duration''))
                                   (filter (\<lambda>t. flt (fmul (Finite 2) avg_duration)
                                                    (Finite (of_int (duration (task_of s t))))) ts)
                   in (Inr (risks1 @ risks2 @ risks3), self\<lparr>proj := s\<rparr>))))"

record analysis =
  analysis_duration :: int
  analysis_total_cost :: pyfloat
  analysis_resource_utilization :: "ref \<rightharpoonup> pyfloat"
  analysis_critical_path :: "ref list"
  analysis_completion_percentage :: pyfloat
  analysis_resource_conflicts :: "conflict list"
  analysis_schedule_risks :: "risk list"

text \<open>The entries of the dict are evaluated in the order they are written.\<close>

definition analyze_project :: "module_globals \<Rightarrow> controller \<Rightarrow> (py_error + analysis) \<times> controller" where
  "analyze_project g self =
     (case get_project_duration (proj self) of
        Inl e \<Rightarrow> (Inl e, self)
      | Inr d \<Rightarrow>
     (let total_cost = get_total_cost (proj self)
      in case get_resource_utilization (proj self) of
        Inl e \<Rightarrow> (Inl e, self)
      | Inr utilization \<Rightarrow>
     (case calculate_critical_path (proj self) of
        (Inl e, s1) \<Rightarrow> (Inl e, self\<lparr>proj := s1\<rparr>)
      | (Inr critical_path, s1) \<Rightarrow>
     (let c1 = self\<lparr>proj := s1\<rparr>
      in case calculate_project_completion s1 of
        Inl e \<Rightarrow> (Inl e, c1)
      | Inr completion \<Rightarrow>
     (case find_resource_conflicts g c1 of
        (Inl e, c2) \<Rightarrow> (Inl e, c2)
      | (Inr conflicts, c2) \<Rightarrow>
     (case analyze_schedule_risks c2 of
        (Inl e, c3) \<Rightarrow> (Inl e, c3)
      | (Inr risks, c3) \<Rightarrow>
          (Inr \<lparr>analysis_duration = d, analysis_total_cost = total_cost,
                analysis_resource_utilization = utilization,
                analysis_critical_path = critical_path,
                analysis_completion_percentage = completion,
                analysis_resource_conflicts = conflicts,
                analysis_schedule_risks = risks\<rparr>, c3)))))))"

record summary_report =
  summary_name :: string
  summary_start_date :: datetime
  summary_end_date :: "datetime option"
  summary_duration :: int
  total_tasks :: nat
  completed_tasks :: nat
  total_resources :: nat
  summary_total_cost :: pyfloat
  summary_completion_percentage :: pyfloat

definition generate_summary_report :: "controller \<Rightarrow> (py_error + summary_report) \<times> controller" where
  "generate_summary_report self =
     (let s = proj self
      in case max_end_date s (tasks (project_of s)) of
           Inl e \<Rightarrow> (Inl e, self)
         | Inr end_d \<Rightarrow>
             (case get_project_duration s of
                Inl e \<Rightarrow> (Inl e, self)
              | Inr d \<Rightarrow>
                  (case calculate_project_completion s of
                     Inl e \<Rightarrow> (Inl e, self)
                   | Inr completion \<Rightarrow>
                       (Inr \<lparr>summary_name = project_name (project_of s),
                             summary_start_date = project_start_date (project_of s),
                             summary_end_date = end_d,
                             summary_duration = d,
                             total_tasks = length (tasks (project_of s)),
                             completed_tasks =
                               length (filter (\<lambda>t. num_eq_int (completion_percentage (task_of s t)) 100)
                                         (tasks (project_of s))),
                             total_resources = length (resources (project_of s)),
                             summary_total_cost = get_total_cost s,
                             summary_completion_percentage = completion\<rparr>, self))))"

record task_report =
  report_id :: int
  report_name :: string
  report_start_date :: "datetime option"
  report_end_date :: "datetime option"
  report_duration :: int
  report_completion :: pynum
  report_resources :: "string list"
  report_predecessors :: "string list"
  report_cost :: pyfloat
  report_is_critical :: bool

fun generate_task_report_loop :: "store \<Rightarrow> ref list \<Rightarrow> py_error + task_report list" where
  "generate_task_report_loop s [] = Inr []"
| "generate_task_report_loop s (t # ts) =
     (let x = task_of s t
      in case get_end_date x of
           Inl e \<Rightarrow> Inl e
         | Inr end_d \<Rightarrow>
             (case generate_task_report_loop s ts of
                Inl e \<Rightarrow> Inl e
              | Inr reports \<Rightarrow>
                  Inr (\<lparr>report_id = task_id x, report_name = name x,
                        report_start_date = start_date x, report_end_date = end_d,
                        report_duration = duration x, report_completion = completion_percentage x,
                        report_resources =
                          map (\<lambda>a. resource_name (resource_of s (a_resource a))) (assignments x),
                        report_predecessors = map (\<lambda>p. name (task_of s p)) (predecessors x),
                        report_cost = get_cost s x, report_is_critical = is_critical x\<rparr> # reports)))"

definition generate_task_report :: "controller \<Rightarrow> (py_error + task_report list) \<times> controller" where
  "generate_task_report self =
     (generate_task_report_loop (proj self) (tasks (project_of (proj self))), self)"

record resource_report =
  rr_name :: string
  rr_cost_rate :: pyfloat
  rr_availability :: pyfloat
  rr_assignments :: nat
  rr_utilization :: pyfloat
  rr_total_cost :: pyfloat
  rr_skills :: "string list"

fun generate_resource_report_loop :: "store \<Rightarrow> ref list \<Rightarrow> py_error + resource_report list" where
  "generate_resource_report_loop s [] = Inr []"
| "generate_resource_report_loop s (r # rs) =
     (case get_resource_utilization s of
        Inl e \<Rightarrow> Inl e
      | Inr utilization \<Rightarrow>
          (case utilization r of
             None \<Rightarrow> Inl KeyError
           | Some u \<Rightarrow>
               (case generate_resource_report_loop s rs of
                  Inl e \<Rightarrow> Inl e
                | Inr reports \<Rightarrow>
                    Inr (\<lparr>rr_name = resource_name (resource_of s r),
                          rr_cost_rate = cost_rate (resource_of s r),
                          rr_availability = availability (resource_of s r),
                          rr_assignments = length (resource_assignments (resource_of s r)),
                          rr_utilization = u,
                          rr_total_cost =
                            py_sum (map (\<lambda>a. fmul (hours a) (cost_rate (resource_of s r)))
                                      (resource_assignments (resource_of s r))),
                          rr_skills = skills (resource_of s r)\<rparr> # reports))))"

definition generate_resource_report :: "controller \<Rightarrow> (py_error + resource_report list) \<times> controller" where
  "generate_resource_report self =
     (generate_resource_report_loop (proj self) (resources (project_of (proj self))), self)"

record timeline_event =
  event_date :: "datetime option"
  event :: string
  event_type :: string
  event_task :: "ref option"

text \<open>
  The events of the tasks, in the order of the task list: the start and the end of each.
\<close>

fun task_events :: "store \<Rightarrow> ref list \<Rightarrow> py_error + timeline_event list" where
  "task_events s [] = Inr []"
| "task_events s (t # ts) =
     (case get_end_date (task_of s t) of
        Inl e \<Rightarrow> Inl e
      | Inr end_d \<Rightarrow>
          (case task_events s ts of
             Inl e \<Rightarrow> Inl e
           | Inr events \<Rightarrow>
               Inr (\<lparr>event_date = start_date (task_of s t),
                     event = ''Task '' @ quoted (name (task_of s t)) @ '' Start'',
                     event_type = ''task_start'', event_task = Some t\<rparr> #
                    \<lparr>event_date = end_d,
                     event = ''Task '' @ quoted (name (task_of s t)) @ '' End'',
                     event_type = ''task_end'', event_task = Some t\<rparr> # events)))"

text \<open>
  \<open>timeline.sort(key=lambda x: x['date'])\<close> compares the dates: with two events or more,
  and the timeline always has the two milestones, a date that is \<open>None\<close> raises
  \<open>TypeError\<close>. The sort is stable.
\<close>

definition generate_timeline_report :: "controller \<Rightarrow> (py_error + timeline_event list) \<times> controller" where
  "generate_timeline_report self =
     (let s = proj self;
          starts = [\<lparr>event_date = Some (project_start_date (project_of s)), event = ''Project Start'',
                     event_type = ''milestone'', event_task = None\<rparr>]
      in case task_events s (tasks (project_of s)) of
           Inl e \<Rightarrow> (Inl e, self)
         | Inr events \<Rightarrow>
      (case max_end_date s (tasks (project_of s)) of
           Inl e \<Rightarrow> (Inl e, self)
         | Inr end_d \<Rightarrow>
             (let timeline = starts @ events @
                    [\<lparr>event_date = end_d, event = ''Project End'',
                      event_type = ''milestone'', event_task = None\<rparr>]
              in if list_ex (\<lambda>x. event_date x = None) timeline then (Inl TypeError, self)
                 else (Inr (sort_key (\<lambda>x. the (event_date x)) timeline), self))))"

record reports =
  reports_summary :: summary_report
  reports_tasks :: "task_report list"
  reports_resources :: "resource_report list"
  reports_timeline :: "timeline_event list"

definition generate_reports :: "controller \<Rightarrow> (py_error + reports) \<times> controller" where
  "generate_reports self =
     (case generate_summary_report self of
        (Inl e, c1) \<Rightarrow> (Inl e, c1)
      | (Inr summary, c1) \<Rightarrow>
     (case generate_task_report c1 of
        (Inl e, c2) \<Rightarrow> (Inl e, c2)
      | (Inr task_reports, c2) \<Rightarrow>
     (case generate_resource_report c2 of
        (Inl e, c3) \<Rightarrow> (Inl e, c3)
      | (Inr resource_reports, c3) \<Rightarrow>
     (case generate_timeline_report c3 of
        (Inl e, c4) \<Rightarrow> (Inl e, c4)
      | (Inr timeline, c4) \<Rightarrow>
          (Inr \<lparr>reports_summary = summary, reports_tasks = task_reports,
                reports_resources = resource_reports, reports_timeline = timeline\<rparr>, c4)))))"

section \<open>A chain of three tasks\<close>

text \<open>
  The project of the chain example: tasks A (5 days), B (3 days) and C (2 days) at the
  addresses 11, 12 and 13, stored in this order, all starting on Monday 2024-01-01 (day
  738885), and no resource. \<open>chain_store\<close> adds the edges A\<rightarrow>B and B\<rightarrow>C with
  \<open>add_predecessor\<close>.
\<close>

definition no_edges_store :: store where
  "no_edges_store =
     \<lparr>task_of = (\<lambda>_. Task_init 0 [] 0 None)
        (11 := Task_init 1 ''A'' 5 (Some (738885 * DAY)),
         12 := Task_init 2 ''B'' 3 (Some (738885 * DAY)),
         13 := Task_init 3 ''C'' 2 (Some (738885 * DAY))),
      resource_of = (\<lambda>_. Resource_init 0 [] (Finite 0) (Finite 0)),
      project_of = \<lparr>project_name = ''New Project'', project_start_date = 738885 * DAY,
                     tasks = [11, 12, 13], resources = [], modified = True\<rparr>\<rparr>"

definition chain_store :: store where
  "chain_store = add_predecessor 13 12 (add_predecessor 12 11 no_edges_store)"

section \<open>Notions used in the statements\<close>

text \<open>The two modules with \<open>timedelta\<close> bound, as \<open>from datetime import datetime, timedelta\<close> would.\<close>

definition with_timedelta :: module_globals where
  "with_timedelta = \<lparr>resource_timedelta = True, controller_timedelta = True\<rparr>"

text \<open>
  The dates whose calendar entry one run of \<open>_update_calendar\<close> from \<open>c\<close> to \<open>e\<close> writes,
  in the order of the loop: it stops at the first step to the next day that raises.
\<close>

function visited_dates :: "module_globals \<Rightarrow> datetime \<Rightarrow> datetime \<Rightarrow> datetime list" where
  "visited_dates g c e =
     (if c \<le> e
      then c # (if resource_timedelta g
                then (case add_days c 1 of Inl _ \<Rightarrow> [] | Inr c' \<Rightarrow> visited_dates g c' e)
                else [])
      else [])"
  by pat_completeness auto
termination
  by (relation "measure (\<lambda>(g, c, e). nat (e + 1 - c))")
     (auto simp: add_days_def timedelta_days_def DAY_def split: if_splits)

text \<open>The figure \<open>_update_calendar\<close> starts from at a date: the entry, or the base availability.\<close>

definition calendar_base :: "resource \<Rightarrow> datetime \<Rightarrow> pyfloat" where
  "calendar_base r d = (case calendar r d of None \<Rightarrow> availability r | Some c \<Rightarrow> c)"

section \<open>A resource and a week\<close>

text \<open>
  Monday 2024-01-01 is day 738885 of the calendar. The assignments are dicts as
  \<open>Task.assign_resource\<close> builds them: for a resource and the week from this Monday to
  the Friday, five working days and 40 hours at full units, and for the resource at
  address 21 and one working day.
\<close>

definition monday :: datetime where
  "monday = 738885 * DAY"

definition week_assignment :: "ref \<Rightarrow> pyfloat \<Rightarrow> assignment" where
  "week_assignment r u =
     \<lparr>a_resource = r, units = u, a_start_date = monday, a_end_date = monday + 4 * DAY,
      hours = fmul (Finite 40) u\<rparr>"

definition day_assignment :: "datetime \<Rightarrow> pyfloat \<Rightarrow> assignment" where
  "day_assignment d u =
     \<lparr>a_resource = 21, units = u, a_start_date = d, a_end_date = d, hours = fmul (Finite 8) u\<rparr>"

text \<open>The floats 0.9 and 0.2: the doubles nearest to 9/10 and to 2/10.\<close>

definition float_0_9 :: real where
  "float_0_9 = 8106479329266893 / 2 ^ 53"

definition float_0_2 :: real where
  "float_0_2 = 3602879701896397 / 2 ^ 54"

section \<open>Controllers of the examples\<close>

definition controller_of :: "store \<Rightarrow> controller" where
  "controller_of s = \<lparr>proj = s, current_filename = None, undo_stack = [], redo_stack = []\<rparr>"

text \<open>
  One task T (5 days from Monday 2024-01-01) at address 11 and one resource R at address
  21, then \<open>T.assign_resource(R, 1.0, Monday, Friday)\<close>: the assignment is on the task and
  on the resource, whether or not the calendar update that follows raises.
\<close>

definition one_task_store :: store where
  "one_task_store =
     \<lparr>task_of = (\<lambda>_. Task_init 0 [] 0 None)(11 := Task_init 1 ''T'' 5 (Some monday)),
      resource_of = (\<lambda>_. Resource_init 0 [] (Finite 0) (Finite 0))
                      (21 := Resource_init 1 ''R'' (Finite 50) (Finite 1)),
      project_of = \<lparr>project_name = ''New Project'', project_start_date = monday,
                     tasks = [11], resources = [21], modified = True\<rparr>\<rparr>"

definition assigned_store :: "module_globals \<Rightarrow> store" where
  "assigned_store g =
     snd (assign_resource g 11 21 (Finite 1) monday (monday + 4 * DAY) one_task_store)"

text \<open>
  Two stores differ in the schedule only: the same project, the same resources, and
  every task the same but for its four early and late fields.
\<close>

definition same_but_schedule :: "store \<Rightarrow> store \<Rightarrow> bool" where
  "same_but_schedule s s' =
     (project_of s' = project_of s \<and> resource_of s' = resource_of s \<and>
      (\<forall>t. task_of s' t =
            (task_of s t)\<lparr>early_start := early_start (task_of s' t),
                           early_finish := early_finish (task_of s' t),
                           late_start := late_start (task_of s' t),
                           late_finish := late_finish (task_of s' t)\<rparr>))"

section \<open>Rounding\<close>

text \<open>
  What the proofs need of \<open>rd\<close>: its value on a real whose binade is known, the error
  of at most half a unit in the last place, and that it maps [0, 1] into itself, within
  \<open>2^-54\<close> of its argument.
\<close>

lemma round_half_even_bounds:
  "\<bar>of_int (round_half_even q) - q\<bar> \<le> 1 / 2"
  unfolding round_half_even_def Let_def
  by (auto simp: abs_if) linarith+

lemma round_half_even_nonneg: "0 \<le> q \<Longrightarrow> 0 \<le> round_half_even q"
  unfolding round_half_even_def Let_def by auto

lemma round_half_even_le:
  assumes "q \<le> of_int N"
  shows "round_half_even q \<le> N"
proof (cases "q = of_int N")
  case True
  then show ?thesis by (simp add: round_half_even_def)
next
  case False
  with assms have "q < of_int N" by simp
  then have "\<lfloor>q\<rfloor> < N" by (simp add: floor_less_iff)
  then show ?thesis unfolding round_half_even_def Let_def by auto
qed

lemma floor_log2_eq:
  assumes "2 powi k \<le> x" and "x < 2 powi (k + 1)"
  shows "\<lfloor>log 2 x\<rfloor> = k"
proof -
  have "0 < (2::real) powi k" by (simp add: zero_less_power_int)
  with assms(1) have pos: "0 < x" by linarith
  have a: "(2::real) powr real_of_int k = 2 powi k"
    by (simp add: powr_real_of_int')
  have b: "(2::real) powr real_of_int (k + 1) = 2 powi (k + 1)"
    by (rule powr_real_of_int') simp_all
  have "2 powr real_of_int k \<le> x \<and> x < 2 powr real_of_int (k + 1)"
    unfolding a b using assms by simp
  then show ?thesis
    using floor_log_eq_powr_iff [of x 2 k] pos by simp
qed

lemma rd_eval:
  assumes "2 powi k \<le> \<bar>x\<bar>" and "\<bar>x\<bar> < 2 powi (k + 1)" and "- 1022 \<le> k"
  shows "rd x = of_int (round_half_even (x / 2 powi (k - 52))) * 2 powi (k - 52)"
proof -
  have "0 < (2::real) powi k" by (simp add: zero_less_power_int)
  with assms(1) have "0 < \<bar>x\<bar>" by linarith
  then have "x \<noteq> 0" by simp
  moreover have "ulp_exponent x = k - 52"
    using floor_log2_eq [OF assms(1,2)] assms(3) by (simp add: ulp_exponent_def)
  ultimately show ?thesis by (simp add: rd_def)
qed

lemma rd_0 [simp]: "rd 0 = 0" by (simp add: rd_def)

lemma rd_nonneg: "0 \<le> x \<Longrightarrow> 0 \<le> rd x"
  by (simp add: rd_def round_half_even_nonneg zero_less_power_int less_imp_le)

lemma ulp_exponent_below_one:
  assumes "0 < x" and "x < 1"
  shows "ulp_exponent x \<le> - 53"
proof -
  have "log 2 x < 0" using assms by simp
  define f where "f = \<lfloor>log 2 x\<rfloor>"
  have "f < 0" using \<open>log 2 x < 0\<close> by (simp add: f_def floor_less_zero)
  moreover have "ulp_exponent x = max f (- 1022) - 52"
    using assms by (simp add: ulp_exponent_def f_def)
  ultimately show ?thesis by linarith
qed

lemma rd_error:
  assumes "x \<noteq> 0"
  shows "\<bar>rd x - x\<bar> \<le> 2 powi ulp_exponent x / 2"
proof -
  let ?p = "(2::real) powi ulp_exponent x"
  have p: "0 < ?p" by (simp add: zero_less_power_int)
  have "rd x - x = (of_int (round_half_even (x / ?p)) - x / ?p) * ?p"
    using assms p by (simp add: rd_def field_simps)
  then have "\<bar>rd x - x\<bar> = \<bar>of_int (round_half_even (x / ?p)) - x / ?p\<bar> * ?p"
    using p by (simp add: abs_mult)
  also have "\<dots> \<le> (1 / 2) * ?p"
    using p round_half_even_bounds [of "x / ?p"] by (intro mult_right_mono) simp_all
  finally show ?thesis by simp
qed

lemma rd_below_one:
  assumes "0 < x" and "x < 1"
  shows "0 \<le> rd x" and "rd x \<le> 1" and "\<bar>rd x - x\<bar> \<le> 1 / 2 ^ 54"
proof -
  let ?e = "ulp_exponent x"
  let ?p = "(2::real) powi ?e"
  have e: "?e \<le> - 53" using assms by (rule ulp_exponent_below_one)
  have p: "0 < ?p" by (simp add: zero_less_power_int)
  have ple: "?p \<le> 2 powi (- 53)" using e by (intro power_int_increasing) simp_all
  show "0 \<le> rd x" using assms by (simp add: rd_nonneg)
  have "\<bar>rd x - x\<bar> \<le> ?p / 2" using assms by (intro rd_error) simp
  also have "\<dots> \<le> 2 powi (- 53) / 2" using ple by simp
  also have "\<dots> = 1 / 2 ^ 54" by (simp add: power_int_minus field_simps)
  finally show "\<bar>rd x - x\<bar> \<le> 1 / 2 ^ 54" .
  have inv: "1 / ?p = of_int (2 ^ nat (- ?e))"
  proof -
    have "?p = inverse (2 ^ nat (- ?e))"
      using e by (simp add: power_int_def power_one_over inverse_eq_divide)
    then show ?thesis by (simp add: field_simps)
  qed
  have "x / ?p \<le> 1 / ?p" using assms p by (simp add: divide_right_mono)
  then have "round_half_even (x / ?p) \<le> 2 ^ nat (- ?e)"
    unfolding inv by (rule round_half_even_le)
  then have "of_int (round_half_even (x / ?p)) \<le> (of_int (2 ^ nat (- ?e)) :: real)"
    by (simp only: of_int_le_iff)
  then have "of_int (round_half_even (x / ?p)) * ?p \<le> (1 / ?p) * ?p"
    unfolding inv using p by (intro mult_right_mono) simp_all
  then show "rd x \<le> 1" using assms p by (simp add: rd_def)
qed

lemma rd_1 [simp]: "rd 1 = 1"
proof -
  have "rd 1 = of_int (round_half_even (1 / 2 powi (0 - 52))) * 2 powi (0 - 52)"
    by (rule rd_eval) simp_all
  also have "\<dots> = 1"
    by (simp add: power_int_minus round_half_even_def)
  finally show ?thesis .
qed

lemma rd_just_above_one:
  assumes "1 \<le> x" and "x \<le> 1 + 1 / 2 ^ 54"
  shows "rd x = 1"
proof -
  have "rd x = of_int (round_half_even (x / 2 powi (0 - 52))) * 2 powi (0 - 52)"
    using assms by (intro rd_eval) simp_all
  moreover have "round_half_even (x / 2 powi (0 - 52)) = 2 ^ 52"
  proof -
    have q: "x / 2 powi (0 - 52) = x * 2 ^ 52" by (simp add: power_int_minus)
    have lo: "(2::real) ^ 52 \<le> x * 2 ^ 52" using assms by simp
    have hi: "x * 2 ^ 52 \<le> 2 ^ 52 + 1 / 4"
    proof -
      have "x * 2 ^ 52 \<le> (1 + 1 / 2 ^ 54) * 2 ^ 52" using assms by (intro mult_right_mono) simp_all
      also have "\<dots> = 2 ^ 52 + 1 / 4" by simp
      finally show ?thesis .
    qed
    have fl: "\<lfloor>x * 2 ^ 52\<rfloor> = 2 ^ 52"
      using lo hi by (intro floor_unique) simp_all
    show ?thesis
      unfolding q round_half_even_def Let_def fl using hi by simp
  qed
  ultimately show ?thesis by (simp add: power_int_minus)
qed

lemma rd_unit:
  assumes "0 \<le> x" and "x \<le> 1 + 1 / 2 ^ 54"
  shows "0 \<le> rd x \<and> rd x \<le> 1 \<and> \<bar>rd x - x\<bar> \<le> 1 / 2 ^ 54"
proof -
  consider "x = 0" | "0 < x" "x < 1" | "1 \<le> x" using assms by linarith
  then show ?thesis
  proof cases
    case 1
    then show ?thesis by simp
  next
    case 2
    then show ?thesis using rd_below_one [of x] by simp
  next
    case 3
    with assms have "rd x = 1" by (intro rd_just_above_one)
    with 3 assms show ?thesis by simp
  qed
qed

lemma rd_half [simp]: "rd (1 / 2) = 1 / 2"
proof -
  have "rd (1 / 2) = of_int (round_half_even ((1 / 2) / 2 powi (- 1 - 52))) * 2 powi (- 1 - 52)"
    by (rule rd_eval) (simp_all add: power_int_minus)
  also have "\<dots> = 1 / 2"
    by (simp add: power_int_minus round_half_even_def)
  finally show ?thesis .
qed

lemma rd_minus_half [simp]: "rd (- (1 / 2)) = - (1 / 2)"
proof -
  have "rd (- (1 / 2)) = of_int (round_half_even ((- (1 / 2)) / 2 powi (- 1 - 52))) * 2 powi (- 1 - 52)"
    by (rule rd_eval) (simp_all add: power_int_minus)
  also have "\<dots> = - (1 / 2)"
    by (simp add: power_int_minus round_half_even_def)
  finally show ?thesis .
qed

lemma rd_3_2 [simp]: "rd (3 / 2) = 3 / 2"
proof -
  have "rd (3 / 2) = of_int (round_half_even ((3 / 2) / 2 powi (0 - 52))) * 2 powi (0 - 52)"
    by (rule rd_eval) (simp_all add: power_int_minus)
  also have "\<dots> = 3 / 2"
    by (simp add: power_int_minus round_half_even_def)
  finally show ?thesis .
qed

lemma rd_40 [simp]: "rd 40 = 40"
proof -
  have "rd 40 = of_int (round_half_even (40 / 2 powi (5 - 52))) * 2 powi (5 - 52)"
    by (rule rd_eval) (simp_all add: power_int_minus)
  also have "\<dots> = 40"
    by (simp add: power_int_minus round_half_even_def)
  finally show ?thesis .
qed

lemma rd_0_9_minus_0_2: "rd (float_0_9 - float_0_2) = 3152519739159347 / 2 ^ 52"
proof -
  have "rd (float_0_9 - float_0_2) =
        of_int (round_half_even ((float_0_9 - float_0_2) / 2 powi (- 1 - 52))) * 2 powi (- 1 - 52)"
    by (rule rd_eval) (simp_all add: power_int_minus float_0_9_def float_0_2_def)
  also have "\<dots> = 3152519739159347 / 2 ^ 52"
    by (simp add: power_int_minus round_half_even_def float_0_9_def float_0_2_def)
  finally show ?thesis .
qed

lemma rd_0_7_plus_0_2: "rd (3152519739159347 / 2 ^ 52 + float_0_2) = 2026619832316723 / 2 ^ 51"
proof -
  have "rd (3152519739159347 / 2 ^ 52 + float_0_2) =
        of_int (round_half_even ((3152519739159347 / 2 ^ 52 + float_0_2) / 2 powi (- 1 - 52))) * 2 powi (- 1 - 52)"
    by (rule rd_eval) (simp_all add: power_int_minus float_0_9_def float_0_2_def)
  also have "\<dots> = 2026619832316723 / 2 ^ 51"
    by (simp add: power_int_minus round_half_even_def float_0_9_def float_0_2_def)
  finally show ?thesis .
qed

lemma round_result_small:
  assumes "\<bar>rd x\<bar> \<le> 2 ^ 100"
  shows "round_result x = Finite (rd x)"
proof -
  have "(2::real) ^ 100 < MAX_FLOAT" by (simp add: MAX_FLOAT_def)
  with assms have "\<not> rd x > MAX_FLOAT" "\<not> rd x < - MAX_FLOAT" by linarith+
  then show ?thesis by (simp add: round_result_def)
qed

section \<open>Working days\<close>

lemma add_days_1:
  "add_days c 1 = (if valid_datetime (c + DAY) then Inr (c + DAY) else Inl OverflowError)"
  by (simp add: add_days_def timedelta_days_def)

lemma card_shift:
  fixes Q :: "int \<Rightarrow> bool"
  assumes fin: "finite {k. 0 < k \<and> Q (k + 1)}"
  shows "card {k. 0 < k \<and> Q k} = card {k. 0 < k \<and> Q (k + 1)} + (if Q 1 then 1 else 0)"
proof -
  let ?S' = "{k. 0 < k \<and> Q (k + 1)}"
  let ?S = "{k. 0 < k \<and> Q k}"
  let ?one = "(if Q 1 then {1::int} else {})"
  have img: "(\<lambda>k. k + 1) ` ?S' = {k. 1 < k \<and> Q k}"
  proof (rule set_eqI, rule iffI)
    fix k assume "k \<in> (\<lambda>k. k + 1) ` ?S'"
    then obtain j where "k = j + 1" "0 < j" "Q (j + 1)" by auto
    then show "k \<in> {k. 1 < k \<and> Q k}" by simp
  next
    fix k assume "k \<in> {k. 1 < k \<and> Q k}"
    then have "0 < k - 1" "Q (k - 1 + 1)" by simp_all
    then have "k - 1 \<in> ?S'" by simp
    then have "(k - 1) + 1 \<in> (\<lambda>k. k + 1) ` ?S'" by (rule imageI)
    then show "k \<in> (\<lambda>k. k + 1) ` ?S'" by simp
  qed
  have split: "?S = (\<lambda>k. k + 1) ` ?S' \<union> ?one"
    unfolding img
  proof (rule set_eqI)
    fix k :: int
    have "0 < k \<longleftrightarrow> k = 1 \<or> 1 < k" by auto
    then show "k \<in> ?S \<longleftrightarrow> k \<in> {k. 1 < k \<and> Q k} \<union> ?one"
      by auto
  qed
  have disj: "(\<lambda>k. k + 1) ` ?S' \<inter> ?one = {}"
    unfolding img by auto
  have "card ?S = card ((\<lambda>k. k + 1) ` ?S') + card ?one"
    unfolding split using fin disj by (intro card_Un_disjoint) auto
  also have "card ((\<lambda>k. k + 1) ` ?S') = card ?S'"
    by (intro card_image) (simp add: inj_on_def)
  finally show ?thesis by simp
qed

lemma card_shift_window:
  fixes c :: int and m :: int
  assumes "0 \<le> m"
  shows "card {k. 0 < k \<and> k \<le> m + 1 \<and> is_working_day (c + k * DAY)} =
         card {k. 0 < k \<and> k \<le> m \<and> is_working_day (c + DAY + k * DAY)} +
         (if is_working_day (c + DAY) then 1 else 0)"
proof -
  have fin: "finite {k. 0 < k \<and> (k + 1 \<le> m + 1 \<and> is_working_day (c + (k + 1) * DAY))}"
    by (rule finite_subset [of _ "{0..m}"]) auto
  have eq: "c + (k + 1) * DAY = c + DAY + k * DAY" for k
    by (simp add: algebra_simps)
  from card_shift [of "\<lambda>k. k \<le> m + 1 \<and> is_working_day (c + k * DAY)", OF fin] assms
  show ?thesis by (simp add: eq)
qed

lemma finite_days_left:
  assumes "0 \<le> c"
  shows "finite {k. 0 < k \<and> valid_datetime (c + k * DAY) \<and> P k}"
proof (rule finite_subset [of _ "{0..MAX_DATETIME}"])
  show "{k. 0 < k \<and> valid_datetime (c + k * DAY) \<and> P k} \<subseteq> {0..MAX_DATETIME}"
  proof
    fix k assume "k \<in> {k. 0 < k \<and> valid_datetime (c + k * DAY) \<and> P k}"
    then have k: "0 < k" "c + k * DAY \<le> MAX_DATETIME" by (simp_all add: valid_datetime_def)
    have "k \<le> k * DAY" using k(1) by (simp add: DAY_def)
    with k assms have "0 \<le> k \<and> k \<le> MAX_DATETIME" by linarith
    then show "k \<in> {0..MAX_DATETIME}" by simp
  qed
qed simp

lemma card_shift_left:
  assumes "0 \<le> c"
  shows "card {k. 0 < k \<and> valid_datetime (c + k * DAY) \<and> is_working_day (c + k * DAY)} =
         card {k. 0 < k \<and> valid_datetime (c + DAY + k * DAY) \<and> is_working_day (c + DAY + k * DAY)} +
         (if valid_datetime (c + DAY) \<and> is_working_day (c + DAY) then 1 else 0)"
proof -
  have eq: "c + (k + 1) * DAY = c + DAY + k * DAY" for k
    by (simp add: algebra_simps)
  have "0 \<le> c + DAY" using assms by (simp add: DAY_def)
  then have "finite {k. 0 < k \<and> valid_datetime (c + DAY + k * DAY) \<and> is_working_day (c + DAY + k * DAY)}"
    by (rule finite_days_left)
  then have fin: "finite {k. 0 < k \<and>
      (valid_datetime (c + (k + 1) * DAY) \<and> is_working_day (c + (k + 1) * DAY))}"
    by (simp add: eq)
  from card_shift [of "\<lambda>k. valid_datetime (c + k * DAY) \<and> is_working_day (c + k * DAY)", OF fin]
  show ?thesis by (simp add: eq)
qed

lemma no_days_left:
  assumes "valid_datetime c" and "\<not> valid_datetime (c + DAY)"
  shows "{k. 0 < k \<and> valid_datetime (c + k * DAY) \<and> P k} = {}"
proof -
  have "\<not> valid_datetime (c + k * DAY)" if "0 < k" for k
  proof -
    have "1 * DAY \<le> k * DAY" using that by (intro mult_right_mono) (simp_all add: DAY_def)
    with assms show ?thesis by (simp add: valid_datetime_def DAY_def)
  qed
  then show ?thesis by auto
qed

declare add_working_days_loop.simps [simp del]

lemma add_working_days_loop_spec:
  "valid_datetime c \<Longrightarrow> 0 \<le> r \<Longrightarrow>
   (case add_working_days_loop c r of
      Inr res \<Rightarrow>
        \<exists>m. 0 \<le> m \<and> res = c + m * DAY \<and> valid_datetime res \<and>
            int (card {k. 0 < k \<and> k \<le> m \<and> is_working_day (c + k * DAY)}) = r \<and>
            (0 < r \<longrightarrow> 0 < m \<and> is_working_day res)
    | Inl e \<Rightarrow>
        e = OverflowError \<and>
        int (card {k. 0 < k \<and> valid_datetime (c + k * DAY) \<and> is_working_day (c + k * DAY)}) < r)"
proof (induction c r rule: add_working_days_loop.induct)
  case (1 c r)
  have c0: "0 \<le> c" using "1.prems"(1) by (simp add: valid_datetime_def)
  show ?case
  proof (cases "0 < r")
    case False
    with "1.prems" have "r = 0" by simp
    have none: "{k. 0 < k \<and> k \<le> (0::int) \<and> is_working_day (c + k * DAY)} = {}"
      by auto
    have "add_working_days_loop c r = Inr c"
      using \<open>r = 0\<close> by (subst add_working_days_loop.simps) simp
    moreover have "\<exists>m. 0 \<le> m \<and> c = c + m * DAY \<and> valid_datetime c \<and>
            int (card {k. 0 < k \<and> k \<le> m \<and> is_working_day (c + k * DAY)}) = r \<and>
            (0 < r \<longrightarrow> 0 < m \<and> is_working_day c)"
      using "1.prems"(1) by (intro exI [of _ 0]) (simp add: \<open>r = 0\<close> none)
    ultimately show ?thesis by simp
  next
    case pos: True
    show ?thesis
    proof (cases "valid_datetime (c + DAY)")
      case False
      have "add_working_days_loop c r = Inl OverflowError"
        using pos False by (subst add_working_days_loop.simps) (simp add: add_days_1)
      moreover have "{k. 0 < k \<and> valid_datetime (c + k * DAY) \<and> is_working_day (c + k * DAY)} = {}"
        using "1.prems"(1) False by (rule no_days_left)
      then have "int (card {k. 0 < k \<and> valid_datetime (c + k * DAY) \<and> is_working_day (c + k * DAY)}) < r"
        using pos by (simp only: card.empty)
      ultimately show ?thesis by simp
    next
      case v: True
      have ad: "add_days c 1 = Inr (c + DAY)" using v by (simp add: add_days_1)
      let ?c' = "c + DAY"
      show ?thesis
      proof (cases "weekday ?c' < 5")
        case True
        then have wd: "is_working_day ?c'" by (simp add: is_working_day_def)
        have step: "add_working_days_loop c r = add_working_days_loop ?c' (r - 1)"
          using pos True by (subst add_working_days_loop.simps) (simp add: ad)
        have r1: "0 \<le> r - 1" using pos by simp
        note IH = "1.IH"(1) [OF pos ad True v r1]
        show ?thesis
        proof (cases "add_working_days_loop ?c' (r - 1)")
          case (Inl e)
          with IH have e: "e = OverflowError"
            and less: "int (card {k. 0 < k \<and> valid_datetime (?c' + k * DAY) \<and> is_working_day (?c' + k * DAY)}) < r - 1"
            by simp_all
          from card_shift_left [OF c0] v wd less
          have "int (card {k. 0 < k \<and> valid_datetime (c + k * DAY) \<and> is_working_day (c + k * DAY)}) < r"
            by simp
          with e Inl step show ?thesis by simp
        next
          case (Inr res)
          with IH obtain m where m: "0 \<le> m" "res = ?c' + m * DAY" "valid_datetime res"
            "int (card {k. 0 < k \<and> k \<le> m \<and> is_working_day (?c' + k * DAY)}) = r - 1"
            "0 < r - 1 \<longrightarrow> 0 < m \<and> is_working_day res"
            by auto
          have "is_working_day res"
          proof (cases "0 < r - 1")
            case True
            with m(5) show ?thesis by simp
          next
            case False
            with pos have "r - 1 = 0" by simp
            then have "add_working_days_loop ?c' (r - 1) = Inr ?c'"
              by (subst add_working_days_loop.simps) simp
            with Inr wd show ?thesis by simp
          qed
          moreover have "res = c + (m + 1) * DAY" using m(2) by (simp add: algebra_simps)
          moreover have "int (card {k. 0 < k \<and> k \<le> m + 1 \<and> is_working_day (c + k * DAY)}) = r"
            using card_shift_window [OF m(1), of c] m(4) wd by simp
          ultimately have "\<exists>m. 0 \<le> m \<and> res = c + m * DAY \<and> valid_datetime res \<and>
            int (card {k. 0 < k \<and> k \<le> m \<and> is_working_day (c + k * DAY)}) = r \<and>
            (0 < r \<longrightarrow> 0 < m \<and> is_working_day res)"
            using m(1,3) by (intro exI [of _ "m + 1"]) simp
          with Inr step show ?thesis by simp
        qed
      next
        case False
        then have wd: "\<not> is_working_day ?c'" by (simp add: is_working_day_def)
        have step: "add_working_days_loop c r = add_working_days_loop ?c' r"
          using pos False by (subst add_working_days_loop.simps) (simp add: ad)
        note IH = "1.IH"(2) [OF pos ad False v "1.prems"(2)]
        show ?thesis
        proof (cases "add_working_days_loop ?c' r")
          case (Inl e)
          with IH have e: "e = OverflowError"
            and less: "int (card {k. 0 < k \<and> valid_datetime (?c' + k * DAY) \<and> is_working_day (?c' + k * DAY)}) < r"
            by simp_all
          from card_shift_left [OF c0] v wd less
          have "int (card {k. 0 < k \<and> valid_datetime (c + k * DAY) \<and> is_working_day (c + k * DAY)}) < r"
            by simp
          with e Inl step show ?thesis by simp
        next
          case (Inr res)
          with IH pos obtain m where m: "0 \<le> m" "res = ?c' + m * DAY" "valid_datetime res"
            "int (card {k. 0 < k \<and> k \<le> m \<and> is_working_day (?c' + k * DAY)}) = r"
            "is_working_day res"
            by auto
          have "res = c + (m + 1) * DAY" using m(2) by (simp add: algebra_simps)
          moreover have "int (card {k. 0 < k \<and> k \<le> m + 1 \<and> is_working_day (c + k * DAY)}) = r"
            using card_shift_window [OF m(1), of c] m(4) wd by simp
          ultimately have "\<exists>m. 0 \<le> m \<and> res = c + m * DAY \<and> valid_datetime res \<and>
            int (card {k. 0 < k \<and> k \<le> m \<and> is_working_day (c + k * DAY)}) = r \<and>
            (0 < r \<longrightarrow> 0 < m \<and> is_working_day res)"
            using m(1,3,5) by (intro exI [of _ "m + 1"]) simp
          with Inr step show ?thesis by simp
        qed
      qed
    qed
  qed
qed

section \<open>End dates and working days\<close>

lemma window_days_left:
  assumes "valid_datetime d" and "valid_datetime (d + m * DAY)"
  shows "card {k. 0 < k \<and> k \<le> m \<and> is_working_day (d + k * DAY)} \<le>
         card {k. 0 < k \<and> valid_datetime (d + k * DAY) \<and> is_working_day (d + k * DAY)}"
proof (rule card_mono)
  have "0 \<le> d" using assms(1) by (simp add: valid_datetime_def)
  then show "finite {k. 0 < k \<and> valid_datetime (d + k * DAY) \<and> is_working_day (d + k * DAY)}"
    by (rule finite_days_left)
  show "{k. 0 < k \<and> k \<le> m \<and> is_working_day (d + k * DAY)} \<subseteq>
        {k. 0 < k \<and> valid_datetime (d + k * DAY) \<and> is_working_day (d + k * DAY)}"
  proof
    fix k assume "k \<in> {k. 0 < k \<and> k \<le> m \<and> is_working_day (d + k * DAY)}"
    then have k: "0 < k" "k \<le> m" "is_working_day (d + k * DAY)" by simp_all
    have "k * DAY \<le> m * DAY" using k(2) by (intro mult_right_mono) (simp_all add: DAY_def)
    moreover have "0 \<le> k * DAY" using k(1) by (simp add: DAY_def)
    ultimately have "valid_datetime (d + k * DAY)"
      using assms by (simp add: valid_datetime_def)
    with k show "k \<in> {k. 0 < k \<and> valid_datetime (d + k * DAY) \<and> is_working_day (d + k * DAY)}"
      by simp
  qed
qed

text \<open>
  Claim C10 says that \<open>add_working_days(d, n)\<close> returns for every date and every
  \<open>n \<ge> 1\<close>. A \<open>datetime\<close> ends with the year 9999: from Friday 9999-12-31 the step to
  the next day raises \<open>OverflowError\<close>, already for \<open>n = 1\<close>.
\<close>

theorem add_working_days_overflow_counterexample:
  "valid_datetime (3652058 * DAY) \<and> weekday (3652058 * DAY) = 4 \<and>
   add_working_days (3652058 * DAY) 1 = Inl OverflowError"
  by (simp add: add_working_days_def add_working_days_loop.simps add_days_def valid_datetime_def
        MAX_DATETIME_def timedelta_days_def weekday_def DAY_def)

text \<open>
  Claim C10, as amended. For every date \<open>d\<close> and every \<open>n \<ge> 1\<close>: when at least \<open>n\<close>
  working days lie after \<open>d\<close> up to the last \<open>datetime\<close>, \<open>add_working_days d n\<close>
  returns a date strictly after \<open>d\<close> that is a working day, a whole number \<open>m\<close> of days
  after \<open>d\<close>, with exactly \<open>n\<close> working days among \<open>d + 1, ..., d + m\<close>; when fewer
  lie there it raises \<open>OverflowError\<close>.
\<close>

theorem add_working_days_spec:
  assumes "valid_datetime d" and "1 \<le> n"
  shows "case add_working_days d n of
           Inr r \<Rightarrow>
             d < r \<and> valid_datetime r \<and> is_working_day r \<and>
             (\<exists>m. r = d + timedelta_days m \<and>
                  int (card {k. 0 < k \<and> k \<le> m \<and> is_working_day (d + timedelta_days k)}) = n) \<and>
             n \<le> int (card {k. 0 < k \<and> valid_datetime (d + timedelta_days k) \<and>
                                is_working_day (d + timedelta_days k)})
         | Inl e \<Rightarrow>
             e = OverflowError \<and>
             int (card {k. 0 < k \<and> valid_datetime (d + timedelta_days k) \<and>
                           is_working_day (d + timedelta_days k)}) < n"
proof -
  from assms have n: "0 \<le> n" "0 < n" by simp_all
  note spec = add_working_days_loop_spec [OF assms(1) n(1)]
  show ?thesis
  proof (cases "add_working_days_loop d n")
    case (Inl e)
    with spec show ?thesis
      by (simp add: add_working_days_def timedelta_days_def)
  next
    case (Inr r)
    with spec n(2) obtain m where m: "0 < m" "r = d + m * DAY" "valid_datetime r"
      "int (card {k. 0 < k \<and> k \<le> m \<and> is_working_day (d + k * DAY)}) = n"
      "is_working_day r"
      by auto
    have "d < r" using m(1,2) by (simp add: DAY_def)
    moreover have "n \<le> int (card {k. 0 < k \<and> valid_datetime (d + k * DAY) \<and>
                                is_working_day (d + k * DAY)})"
      using window_days_left [OF assms(1), of m] m(2,3,4) by simp
    moreover have "\<exists>m. r = d + m * DAY \<and>
        int (card {k. 0 < k \<and> k \<le> m \<and> is_working_day (d + k * DAY)}) = n"
      using m(2,4) by blast
    ultimately show ?thesis
      using Inr m(3,5) by (simp add: add_working_days_def timedelta_days_def)
  qed
qed

theorem add_working_days_spec_witness:
  "valid_datetime (4 * DAY) \<and> weekday (4 * DAY) = 4 \<and>
   add_working_days (4 * DAY) 1 = Inr (7 * DAY) \<and> is_working_day (7 * DAY) \<and>
   (\<exists>m. 7 * DAY = 4 * DAY + timedelta_days m \<and>
        int (card {k. 0 < k \<and> k \<le> m \<and> is_working_day (4 * DAY + timedelta_days k)}) = 1) \<and>
   add_working_days (3652058 * DAY) 1 = Inl OverflowError \<and>
   int (card {k. 0 < k \<and> valid_datetime (3652058 * DAY + timedelta_days k) \<and>
                 is_working_day (3652058 * DAY + timedelta_days k)}) < 1"
proof -
  have v: "valid_datetime (4 * DAY)" "valid_datetime (3652058 * DAY)"
    by (simp_all add: valid_datetime_def MAX_DATETIME_def DAY_def)
  have a: "add_working_days (4 * DAY) 1 = Inr (7 * DAY)"
    by (simp add: add_working_days_def add_working_days_loop.simps add_days_def valid_datetime_def
          MAX_DATETIME_def timedelta_days_def weekday_def DAY_def)
  have b: "add_working_days (3652058 * DAY) 1 = Inl OverflowError"
    by (simp add: add_working_days_def add_working_days_loop.simps add_days_def valid_datetime_def
          MAX_DATETIME_def timedelta_days_def weekday_def DAY_def)
  have w: "weekday (4 * DAY) = 4"
    by (simp add: weekday_def DAY_def)
  from add_working_days_spec [OF v(1), of 1] add_working_days_spec [OF v(2), of 1] v w
  show ?thesis
    unfolding a b by simp
qed

text \<open>
  Claim C9 says that a task with a start date always has an end date, the start plus
  the duration in days. The sum is a \<open>datetime\<close> only up to the year 9999: a task of 5
  days starting on 9999-12-30 has no end date, \<open>get_end_date\<close> raises \<open>OverflowError\<close>.
\<close>

theorem get_end_date_overflow_counterexample:
  "valid_datetime (3652057 * DAY) \<and>
   get_end_date (Task_init 1 ''A'' 5 (Some (3652057 * DAY))) = Inl OverflowError"
  by (simp add: get_end_date_def Task_init_def add_days_def valid_datetime_def MAX_DATETIME_def
        timedelta_days_def DAY_def)

text \<open>
  Claim C9, as amended. A task with no start date has no end date: \<open>get_end_date\<close>
  returns \<open>None\<close>, not a date and not an error. A task with a start date ends
  \<open>duration\<close> calendar days after it when the duration has magnitude at most 999999999
  and that date is a \<open>datetime\<close>, from 0001-01-01 to 9999-12-31; otherwise
  \<open>get_end_date\<close> raises \<open>OverflowError\<close>.
\<close>

theorem get_end_date_spec:
  "(start_date t = None \<longrightarrow> get_end_date t = Inr None) \<and>
   (\<forall>d. start_date t = Some d \<longrightarrow>
        get_end_date t =
          (if \<bar>duration t\<bar> \<le> 999999999 \<and> valid_datetime (d + timedelta_days (duration t))
           then Inr (Some (d + timedelta_days (duration t))) else Inl OverflowError))"
  by (simp add: get_end_date_def add_days_def)

theorem get_end_date_spec_witness:
  "get_end_date (Task_init 1 ''A'' 5 None) = Inr None \<and>
   get_end_date (Task_init 2 ''B'' 3 (Some (738885 * DAY))) = Inr (Some (738888 * DAY)) \<and>
   get_end_date (Task_init 3 ''C'' 5 (Some (3652057 * DAY))) = Inl OverflowError \<and>
   get_end_date (Task_init 4 ''D'' 1000000000 (Some 0)) = Inl OverflowError"
  using get_end_date_spec [of "Task_init 1 ''A'' 5 None"]
        get_end_date_spec [of "Task_init 2 ''B'' 3 (Some (738885 * DAY))"]
        get_end_date_spec [of "Task_init 3 ''C'' 5 (Some (3652057 * DAY))"]
        get_end_date_spec [of "Task_init 4 ''D'' 1000000000 (Some 0)"]
  by (simp add: Task_init_def valid_datetime_def MAX_DATETIME_def timedelta_days_def DAY_def)

section \<open>Dependencies and the critical path of a chain\<close>

lemma chain_store_lists:
  "predecessors (task_of chain_store 11) = []"
  "predecessors (task_of chain_store 12) = [11]"
  "predecessors (task_of chain_store 13) = [12]"
  "successors (task_of chain_store 11) = [12]"
  "successors (task_of chain_store 12) = [13]"
  "successors (task_of chain_store 13) = []"
  "duration (task_of chain_store 11) = 5"
  "duration (task_of chain_store 12) = 3"
  "duration (task_of chain_store 13) = 2"
  "tasks (project_of chain_store) = [11, 12, 13]"
  by (simp_all add: chain_store_def no_edges_store_def add_predecessor_def upd_task_def
        Task_init_def Let_def)

text \<open>
  Claim C1 says that adding C as a predecessor of A, after A\<rightarrow>B and B\<rightarrow>C, fails and leaves
  A's predecessor list as it was. \<open>add_predecessor\<close> has no cycle check and no failure:
  the call appends C to A's predecessors and A to C's successors.
\<close>

theorem add_predecessor_cycle_counterexample:
  "predecessors (task_of (add_predecessor 11 13 chain_store) 11) = [13] \<and>
   successors (task_of (add_predecessor 11 13 chain_store) 13) = [11] \<and>
   predecessors (task_of (add_predecessor 11 13 chain_store) 11) \<noteq> predecessors (task_of chain_store 11)"
  by (simp add: add_predecessor_def upd_task_def Let_def chain_store_lists)

text \<open>
  Claim C1, as amended. \<open>add_predecessor b a\<close> (b depends on a) checks only whether a is
  already in b's predecessor list. When it is not, a is appended to b's predecessors and
  b to a's successors, whatever paths exist between a and b and also when a = b; no
  other list changes. When it is, nothing changes.
\<close>

theorem add_predecessor_effect:
  "predecessors (task_of (add_predecessor b a s) t) =
     (if t = b \<and> a \<notin> set (predecessors (task_of s b))
      then predecessors (task_of s t) @ [a] else predecessors (task_of s t)) \<and>
   successors (task_of (add_predecessor b a s) t) =
     (if t = a \<and> a \<notin> set (predecessors (task_of s b))
      then successors (task_of s t) @ [b] else successors (task_of s t))"
  by (simp add: add_predecessor_def upd_task_def Let_def)

theorem add_predecessor_effect_witness:
  "predecessors (task_of (add_predecessor 11 13 chain_store) 11) = [13] \<and>
   successors (task_of (add_predecessor 11 13 chain_store) 13) = [11] \<and>
   predecessors (task_of (add_predecessor 11 11 chain_store) 11) = [11] \<and>
   successors (task_of (add_predecessor 11 11 chain_store) 11) = [12, 11] \<and>
   predecessors (task_of (add_predecessor 12 11 chain_store) 12) = [11]"
  using add_predecessor_effect [of 11 13 chain_store 11] add_predecessor_effect [of 11 13 chain_store 13]
        add_predecessor_effect [of 11 11 chain_store 11] add_predecessor_effect [of 12 11 chain_store 12]
  by (simp add: chain_store_lists)

text \<open>
  Claim C2. A project whose task list is [A, B, C] in this order, with durations 5, 3
  and 2 and the edges A\<rightarrow>B and B\<rightarrow>C: \<open>calculate_critical_path\<close> returns all three
  tasks, the largest early finish is 10, and the float of each task is 0. The other
  fields of the three tasks, the early and late values of an earlier run among them, are
  arbitrary.
\<close>

theorem critical_path_chain:
  assumes "tasks (project_of s) = [a, b, c]" and "distinct [a, b, c]"
    and "duration (task_of s a) = 5" and "duration (task_of s b) = 3" and "duration (task_of s c) = 2"
    and "successors (task_of s a) = [b]" and "successors (task_of s b) = [c]"
    and "successors (task_of s c) = []"
    and "predecessors (task_of s a) = []" and "predecessors (task_of s b) = [a]"
    and "predecessors (task_of s c) = [b]"
  shows "fst (calculate_critical_path s) = Inr [a, b, c] \<and>
         py_max (map (\<lambda>t. early_finish (task_of (snd (calculate_critical_path s)) t)) [a, b, c]) = Inr 10 \<and>
         get_float (task_of (snd (calculate_critical_path s)) a) = 0 \<and>
         get_float (task_of (snd (calculate_critical_path s)) b) = 0 \<and>
         get_float (task_of (snd (calculate_critical_path s)) c) = 0"
  using assms
  by (simp add: calculate_critical_path_def forward_pass_def backward_pass_def init_early_def
        init_late_def forward_relax_def backward_relax_def upd_task_def get_float_def Let_def)

theorem critical_path_chain_witness:
  "fst (calculate_critical_path chain_store) = Inr [11, 12, 13] \<and>
   py_max (map (\<lambda>t. early_finish (task_of (snd (calculate_critical_path chain_store)) t)) [11, 12, 13]) = Inr 10 \<and>
   get_float (task_of (snd (calculate_critical_path chain_store)) 11) = 0 \<and>
   get_float (task_of (snd (calculate_critical_path chain_store)) 12) = 0 \<and>
   get_float (task_of (snd (calculate_critical_path chain_store)) 13) = 0"
  using critical_path_chain [of chain_store 11 12 13]
  by (simp add: chain_store_lists)

section \<open>The calendar of a resource\<close>

declare update_calendar_loop.simps [simp del]
declare get_utilization_loop.simps [simp del]
declare visited_dates.simps [simp del]

lemma update_calendar_day_fields:
  "availability (update_calendar_day u c r) = availability r"
  "resource_assignments (update_calendar_day u c r) = resource_assignments r"
  "calendar (update_calendar_day u c r) = (calendar r)(c \<mapsto> clamp01 (fsub (calendar_base r c) u))"
  by (simp_all add: update_calendar_day_def calendar_base_def Let_def)

lemma visited_dates_empty: "\<not> c \<le> e \<Longrightarrow> visited_dates g c e = []"
  by (subst visited_dates.simps) simp

lemma visited_dates_stop:
  "c \<le> e \<Longrightarrow> \<not> (resource_timedelta g \<and> valid_datetime (c + DAY)) \<Longrightarrow> visited_dates g c e = [c]"
  by (subst visited_dates.simps) (simp add: add_days_1)

lemma visited_dates_step:
  "c \<le> e \<Longrightarrow> resource_timedelta g \<Longrightarrow> valid_datetime (c + DAY) \<Longrightarrow>
   visited_dates g c e = c # visited_dates g (c + DAY) e"
  by (subst visited_dates.simps) (simp add: add_days_1)

lemma visited_dates_ge: "d \<in> set (visited_dates g c e) \<Longrightarrow> c \<le> d"
proof (induction g c e rule: visited_dates.induct)
  case (1 g c e)
  consider "\<not> c \<le> e" | "c \<le> e" "\<not> (resource_timedelta g \<and> valid_datetime (c + DAY))"
    | "c \<le> e" "resource_timedelta g" "valid_datetime (c + DAY)" by blast
  then show ?case
  proof cases
    case 1
    with "1.prems" show ?thesis by (simp add: visited_dates_empty)
  next
    case 2
    with "1.prems" show ?thesis by (simp add: visited_dates_stop)
  next
    case 3
    then have ad: "add_days c 1 = Inr (c + DAY)" by (simp add: add_days_1)
    from 3 "1.prems" have "d = c \<or> d \<in> set (visited_dates g (c + DAY) e)"
      by (simp add: visited_dates_step)
    then show ?thesis
    proof
      assume "d \<in> set (visited_dates g (c + DAY) e)"
      with "1.IH" [OF 3(1,2) ad] have "c + DAY \<le> d" by simp
      then show ?thesis by (simp add: DAY_def)
    qed simp
  qed
qed

lemma update_calendar_loop_empty: "\<not> c \<le> e \<Longrightarrow> update_calendar_loop g u c e r = (Inr (), r)"
  by (subst update_calendar_loop.simps) simp

lemma update_calendar_loop_stop:
  "c \<le> e \<Longrightarrow> \<not> (resource_timedelta g \<and> valid_datetime (c + DAY)) \<Longrightarrow>
   snd (update_calendar_loop g u c e r) = update_calendar_day u c r"
  by (subst update_calendar_loop.simps) (simp add: add_days_1 Let_def)

lemma update_calendar_loop_step:
  "c \<le> e \<Longrightarrow> resource_timedelta g \<Longrightarrow> valid_datetime (c + DAY) \<Longrightarrow>
   update_calendar_loop g u c e r = update_calendar_loop g u (c + DAY) e (update_calendar_day u c r)"
  by (subst update_calendar_loop.simps) (simp add: add_days_1 Let_def)

lemma update_calendar_loop_fields:
  "availability (snd (update_calendar_loop g u c e r)) = availability r \<and>
   resource_assignments (snd (update_calendar_loop g u c e r)) = resource_assignments r"
proof (induction g u c e r rule: update_calendar_loop.induct)
  case (1 g u c e r)
  consider "\<not> c \<le> e" | "c \<le> e" "\<not> (resource_timedelta g \<and> valid_datetime (c + DAY))"
    | "c \<le> e" "resource_timedelta g" "valid_datetime (c + DAY)" by blast
  then show ?case
  proof cases
    case 1
    then show ?thesis by (simp add: update_calendar_loop_empty)
  next
    case 2
    then show ?thesis by (simp add: update_calendar_loop_stop update_calendar_day_fields)
  next
    case 3
    then have ad: "add_days c 1 = Inr (c + DAY)" by (simp add: add_days_1)
    from "1.IH" [OF 3(1) refl 3(2) ad] 3 show ?thesis
      by (simp add: update_calendar_loop_step update_calendar_day_fields)
  qed
qed

lemma update_calendar_loop_calendar:
  "calendar (snd (update_calendar_loop g u c e r)) d =
     (if d \<in> set (visited_dates g c e) then Some (clamp01 (fsub (calendar_base r d) u))
      else calendar r d)"
proof (induction g u c e r rule: update_calendar_loop.induct)
  case (1 g u c e r)
  let ?r' = "update_calendar_day u c r"
  consider "\<not> c \<le> e" | "c \<le> e" "\<not> (resource_timedelta g \<and> valid_datetime (c + DAY))"
    | "c \<le> e" "resource_timedelta g" "valid_datetime (c + DAY)" by blast
  then show ?case
  proof cases
    case 1
    then show ?thesis by (simp add: update_calendar_loop_empty visited_dates_empty)
  next
    case 2
    then show ?thesis
      by (simp add: update_calendar_loop_stop visited_dates_stop update_calendar_day_fields)
  next
    case 3
    then have ad: "add_days c 1 = Inr (c + DAY)" by (simp add: add_days_1)
    have nv: "c \<notin> set (visited_dates g (c + DAY) e)"
      using visited_dates_ge [of c g "c + DAY" e] by (auto simp: DAY_def)
    have "d \<noteq> c \<Longrightarrow> calendar_base ?r' d = calendar_base r d"
      by (simp add: calendar_base_def update_calendar_day_fields split: option.split)
    with nv have base: "d \<in> set (visited_dates g (c + DAY) e) \<Longrightarrow>
        calendar_base ?r' d = calendar_base r d"
      by blast
    note IH = "1.IH" [OF 3(1) refl 3(2) ad]
    show ?thesis
      unfolding update_calendar_loop_step [OF 3] visited_dates_step [OF 3] IH
      using nv base by (auto simp: update_calendar_day_fields)
  qed
qed

lemma calendar_base_assignments [simp]:
  "calendar_base (r\<lparr>resource_assignments := xs\<rparr>) d = calendar_base r d"
  by (simp add: calendar_base_def split: option.split)

lemma add_assignment_fields:
  "availability (snd (add_assignment g a r)) = availability r"
  "resource_assignments (snd (add_assignment g a r)) = resource_assignments r @ [a]"
  "calendar (snd (add_assignment g a r)) d =
     (if d \<in> set (visited_dates g (a_start_date a) (a_end_date a))
      then Some (clamp01 (fsub (calendar_base r d) (units a))) else calendar r d)"
  by (simp_all add: add_assignment_def update_calendar_def update_calendar_loop_fields
        update_calendar_loop_calendar)

lemma remove_assignment_fields:
  assumes "a \<in> set (resource_assignments r)"
  shows "availability (snd (remove_assignment g a r)) = availability r"
    and "resource_assignments (snd (remove_assignment g a r)) = remove1 a (resource_assignments r)"
    and "calendar (snd (remove_assignment g a r)) d =
     (if d \<in> set (visited_dates g (a_start_date a) (a_end_date a))
      then Some (clamp01 (fsub (calendar_base r d) (fneg (units a)))) else calendar r d)"
  using assms
  by (simp_all add: remove_assignment_def update_calendar_def update_calendar_loop_fields
        update_calendar_loop_calendar)

lemma add_remove_calendar:
  "calendar (snd (remove_assignment g a (snd (add_assignment g a r)))) d =
     (if d \<in> set (visited_dates g (a_start_date a) (a_end_date a))
      then Some (clamp01 (fsub (clamp01 (fsub (calendar_base r d) (units a))) (fneg (units a))))
      else calendar r d)"
proof -
  let ?r1 = "snd (add_assignment g a r)"
  have mem: "a \<in> set (resource_assignments ?r1)"
    by (simp add: add_assignment_fields)
  have "d \<in> set (visited_dates g (a_start_date a) (a_end_date a)) \<Longrightarrow>
        calendar_base ?r1 d = clamp01 (fsub (calendar_base r d) (units a))"
    by (simp add: calendar_base_def [of ?r1] add_assignment_fields)
  then show ?thesis
    by (simp add: remove_assignment_fields [OF mem] add_assignment_fields)
qed

lemma add_remove_availability:
  "get_availability (snd (remove_assignment g a (snd (add_assignment g a r)))) d =
     (if d \<in> set (visited_dates g (a_start_date a) (a_end_date a))
      then clamp01 (fsub (clamp01 (fsub (calendar_base r d) (units a))) (fneg (units a)))
      else get_availability r d)"
proof -
  let ?r1 = "snd (add_assignment g a r)"
  let ?r2 = "snd (remove_assignment g a ?r1)"
  have mem: "a \<in> set (resource_assignments ?r1)"
    by (simp add: add_assignment_fields)
  have av: "availability ?r2 = availability r"
    by (simp add: remove_assignment_fields [OF mem] add_assignment_fields)
  show ?thesis
    unfolding get_availability_def [of ?r2] get_availability_def [of r] av add_remove_calendar
    by simp
qed

section \<open>Adding and removing an assignment\<close>

lemma clamp01_unit: "0 \<le> a \<Longrightarrow> a \<le> 1 \<Longrightarrow> clamp01 (Finite a) = Finite a"
  by (auto simp: clamp01_def)

lemma fsub_finite: "fsub (Finite a) (Finite b) = round_result (a - b)"
  by (simp add: fsub_def)

lemma fsub_fneg_finite: "fsub (Finite a) (fneg (Finite b)) = round_result (a + b)"
  by (simp add: fsub_def)

lemma round_result_unit:
  assumes "0 \<le> x" and "x \<le> 1 + 1 / 2 ^ 54"
  shows "round_result x = Finite (rd x)"
proof -
  from rd_unit [OF assms] have "\<bar>rd x\<bar> \<le> 1" by simp
  also have "(1::real) \<le> 2 ^ 100" by simp
  finally show ?thesis by (rule round_result_small)
qed

lemma clamp_round_trip:
  assumes "0 < u" and "u \<le> c" and "c \<le> 1"
  shows "\<exists>c'. clamp01 (fsub (clamp01 (fsub (Finite c) (Finite u))) (fneg (Finite u))) = Finite c' \<and>
              \<bar>c' - c\<bar> \<le> 1 / 2 ^ 53 \<and> (rd (c - u) = c - u \<and> rd c = c \<longrightarrow> c' = c)"
proof -
  let ?a1 = "rd (c - u)"
  let ?a2 = "rd (?a1 + u)"
  have x1: "0 \<le> c - u" "c - u \<le> 1 + 1 / 2 ^ 54" using assms by simp_all
  note r1 = rd_unit [OF x1]
  have s1: "clamp01 (fsub (Finite c) (Finite u)) = Finite ?a1"
    using r1 by (simp add: fsub_finite round_result_unit [OF x1] clamp01_unit)
  have y: "0 \<le> ?a1 + u" "?a1 + u \<le> 1 + 1 / 2 ^ 54"
    using r1 assms by linarith+
  note r2 = rd_unit [OF y]
  have s2: "clamp01 (fsub (Finite ?a1) (fneg (Finite u))) = Finite ?a2"
    using r2 by (simp add: fsub_finite round_result_unit [OF y] clamp01_unit)
  have "\<bar>?a2 - c\<bar> \<le> \<bar>?a2 - (?a1 + u)\<bar> + \<bar>?a1 - (c - u)\<bar>" by simp
  also have "\<dots> \<le> 1 / 2 ^ 54 + 1 / 2 ^ 54" using r1 r2 by (intro add_mono) simp_all
  also have "\<dots> = 1 / 2 ^ 53" by simp
  finally have tol: "\<bar>?a2 - c\<bar> \<le> 1 / 2 ^ 53" .
  have exact: "rd (c - u) = c - u \<and> rd c = c \<longrightarrow> ?a2 = c" by simp
  show ?thesis
    unfolding s1 s2 using tol exact by blast
qed

text \<open>
  Claim C4 says that adding and removing an assignment restores the availability of every
  date of its range. The two clamps to [0, 1] lose what they cut, and the subtraction
  and the addition round. On a Monday with no calendar entry: a resource available at
  0.5 ends at 1.0 after an assignment at units 1.0, a resource available at 1.5 ends at
  1.0 after an assignment at units 0.5, and a resource available at 0.9 ends at
  0.8999999999999999 after an assignment at units 0.2.
\<close>

theorem remove_assignment_not_restored_counterexample:
  "get_availability (Resource_init 1 ''R'' (Finite 50) (Finite (1 / 2))) monday = Finite (1 / 2) \<and>
   get_availability (snd (remove_assignment as_written (day_assignment monday (Finite 1))
      (snd (add_assignment as_written (day_assignment monday (Finite 1))
         (Resource_init 1 ''R'' (Finite 50) (Finite (1 / 2))))))) monday = Finite 1 \<and>
   get_availability (Resource_init 1 ''R'' (Finite 50) (Finite (3 / 2))) monday = Finite (3 / 2) \<and>
   get_availability (snd (remove_assignment as_written (day_assignment monday (Finite (1 / 2)))
      (snd (add_assignment as_written (day_assignment monday (Finite (1 / 2)))
         (Resource_init 1 ''R'' (Finite 50) (Finite (3 / 2))))))) monday = Finite 1 \<and>
   get_availability (Resource_init 1 ''R'' (Finite 50) (Finite float_0_9)) monday = Finite float_0_9 \<and>
   get_availability (snd (remove_assignment as_written (day_assignment monday (Finite float_0_2))
      (snd (add_assignment as_written (day_assignment monday (Finite float_0_2))
         (Resource_init 1 ''R'' (Finite 50) (Finite float_0_9)))))) monday =
     Finite (float_0_9 - 1 / 2 ^ 53)"
proof -
  have before: "get_availability (Resource_init 1 ''R'' (Finite 50) v) monday = v" for v
    by (simp add: Resource_init_def get_availability_def monday_def weekday_def DAY_def)
  have vis: "visited_dates as_written monday monday = [monday]"
    by (rule visited_dates_stop) (simp_all add: as_written_def)
  have after: "get_availability (snd (remove_assignment as_written (day_assignment monday u)
      (snd (add_assignment as_written (day_assignment monday u)
         (Resource_init 1 ''R'' (Finite 50) v))))) monday =
      clamp01 (fsub (clamp01 (fsub v u)) (fneg u))" for u v
    by (simp add: add_remove_availability day_assignment_def vis calendar_base_def Resource_init_def)
  have 1: "clamp01 (fsub (clamp01 (fsub (Finite (1 / 2)) (Finite 1))) (fneg (Finite 1))) = Finite 1"
    by (simp add: fsub_finite fsub_fneg_finite round_result_small clamp01_def)
  have 2: "clamp01 (fsub (clamp01 (fsub (Finite (3 / 2)) (Finite (1 / 2)))) (fneg (Finite (1 / 2)))) = Finite 1"
    by (simp add: fsub_finite fsub_fneg_finite round_result_small clamp01_def)
  have 3: "clamp01 (fsub (Finite float_0_9) (Finite float_0_2)) = Finite (3152519739159347 / 2 ^ 52)"
    unfolding fsub_finite round_result_def rd_0_9_minus_0_2
    by (simp add: clamp01_def MAX_FLOAT_def)
  have 4: "clamp01 (fsub (Finite (3152519739159347 / 2 ^ 52)) (fneg (Finite float_0_2))) =
           Finite (2026619832316723 / 2 ^ 51)"
    unfolding fsub_fneg_finite round_result_def rd_0_7_plus_0_2
    by (simp add: clamp01_def MAX_FLOAT_def)
  have 5: "(2026619832316723 / 2 ^ 51 :: real) = float_0_9 - 1 / 2 ^ 53"
    by (simp add: float_0_9_def)
  show ?thesis
    unfolding before after 1 2 3 4 5 by simp
qed

text \<open>
  Claim C4, as amended. For a resource, an assignment with units \<open>u > 0\<close> and a date \<open>d\<close>
  on which the availability \<open>c\<close> before the assignment is at least \<open>u\<close> and at most 1:
  the availability of \<open>d\<close> after the assignment has been added and removed is within
  \<open>2^-53\<close> of \<open>c\<close>; it is \<open>c\<close> when \<open>c - u\<close> is a float, as \<open>c\<close> is, and when the
  update did not reach \<open>d\<close>. It holds whether or not the step to the next day raises.
\<close>

theorem remove_assignment_restores:
  assumes "get_availability r d = Finite c" and "units a = Finite u"
    and "0 < u" and "u \<le> c" and "c \<le> 1"
  shows "\<exists>c'. get_availability (snd (remove_assignment g a (snd (add_assignment g a r)))) d = Finite c' \<and>
              \<bar>c' - c\<bar> \<le> 1 / 2 ^ 53 \<and>
              (rd (c - u) = c - u \<and> rd c = c \<longrightarrow> c' = c) \<and>
              (d \<notin> set (visited_dates g (a_start_date a) (a_end_date a)) \<longrightarrow> c' = c)"
proof (cases "d \<in> set (visited_dates g (a_start_date a) (a_end_date a))")
  case False
  with assms(1) show ?thesis by (simp add: add_remove_availability)
next
  case True
  have "calendar_base r d = Finite c"
    using assms(1,3,4)
    by (auto simp: calendar_base_def get_availability_def split: option.splits if_splits)
  with True have "get_availability (snd (remove_assignment g a (snd (add_assignment g a r)))) d =
      clamp01 (fsub (clamp01 (fsub (Finite c) (Finite u))) (fneg (Finite u)))"
    by (simp add: add_remove_availability assms(2))
  with clamp_round_trip [OF assms(3,4,5)] True show ?thesis by auto
qed

theorem remove_assignment_restores_witness:
  "get_availability (Resource_init 1 ''R'' (Finite 50) (Finite 1)) monday = Finite 1 \<and>
   get_availability (snd (remove_assignment as_written (week_assignment 21 (Finite (1 / 2)))
      (snd (add_assignment as_written (week_assignment 21 (Finite (1 / 2)))
         (Resource_init 1 ''R'' (Finite 50) (Finite 1)))))) monday = Finite 1 \<and>
   get_availability (snd (remove_assignment with_timedelta (week_assignment 21 (Finite (1 / 2)))
      (snd (add_assignment with_timedelta (week_assignment 21 (Finite (1 / 2)))
         (Resource_init 1 ''R'' (Finite 50) (Finite 1)))))) (monday + 2 * DAY) = Finite 1"
proof -
  have before: "get_availability (Resource_init 1 ''R'' (Finite 50) (Finite 1)) monday = Finite 1"
    "get_availability (Resource_init 1 ''R'' (Finite 50) (Finite 1)) (monday + 2 * DAY) = Finite 1"
    by (simp_all add: Resource_init_def get_availability_def monday_def weekday_def DAY_def)
  have u: "units (week_assignment 21 (Finite (1 / 2))) = Finite (1 / 2)"
    by (simp add: week_assignment_def)
  from remove_assignment_restores [OF before(1) u, of as_written]
       remove_assignment_restores [OF before(2) u, of with_timedelta] before(1)
  show ?thesis by auto
qed

section \<open>Utilization of a resource\<close>

lemma get_utilization_loop_as_written:
  "get_utilization_loop as_written r s e a b = (if s \<le> e then Inl NameError else Inr (a, b))"
  by (subst get_utilization_loop.simps) (simp add: as_written_def Let_def)

lemma get_utilization_as_written:
  "get_utilization as_written r s e = (if s \<le> e then Inl NameError else Inr (Finite 0))"
  by (simp add: get_utilization_def get_utilization_loop_as_written)

lemma update_calendar_loop_as_written:
  "s \<le> e \<Longrightarrow> fst (update_calendar_loop as_written u s e r) = Inl NameError"
  by (subst update_calendar_loop.simps) (simp add: as_written_def Let_def)

text \<open>
  Claim C7 says that \<open>get_utilization(start, end)\<close> is the assigned hours of the range
  over its available hours, and 1.0 for a resource of availability 1.0 with one
  assignment at units 1.0 over a week. \<open>resource.py\<close> does not import \<open>timedelta\<close>: the
  first pass of the loop ends in \<open>NameError\<close>, for every resource and every range with
  \<open>start \<le> end\<close>, and the call returns, 0.0, on an empty range only. For the resource
  of the claim, \<open>add_assignment\<close> raises too, after it has appended the assignment.
\<close>

theorem get_utilization_name_error:
  "get_utilization as_written r s e = (if s \<le> e then Inl NameError else Inr (Finite 0)) \<and>
   fst (add_assignment as_written (week_assignment 21 (Finite 1))
          (Resource_init 1 ''R'' (Finite 50) (Finite 1))) = Inl NameError \<and>
   resource_assignments (snd (add_assignment as_written (week_assignment 21 (Finite 1))
          (Resource_init 1 ''R'' (Finite 50) (Finite 1)))) = [week_assignment 21 (Finite 1)] \<and>
   get_utilization as_written
     (snd (add_assignment as_written (week_assignment 21 (Finite 1))
             (Resource_init 1 ''R'' (Finite 50) (Finite 1))))
     monday (monday + 4 * DAY) = Inl NameError"
  by (simp add: get_utilization_as_written add_assignment_def update_calendar_def
        update_calendar_loop_as_written update_calendar_loop_fields week_assignment_def
        Resource_init_def DAY_def)

section \<open>A task with an assignment\<close>

lemma calendar_hours_week:
  "calculate_assignment_hours u monday (monday + 4 * DAY) = Inr (fmul (Finite 40) u)"
proof -
  have "get_working_days monday (monday + 4 * DAY) = Inr 5"
    by (simp add: get_working_days_def add_days_def valid_datetime_def MAX_DATETIME_def
          timedelta_days_def weekday_def monday_def DAY_def)
  moreover have "float_of_int 40 = Inr (Finite 40)"
    by (simp add: float_of_int_def round_result_small)
  ultimately show ?thesis
    by (simp add: calculate_assignment_hours_def)
qed

lemma assigned_store_fields:
  "tasks (project_of (assigned_store g)) = [11]"
  "resources (project_of (assigned_store g)) = [21]"
  "project_start_date (project_of (assigned_store g)) = monday"
  "resource_assignments (resource_of (assigned_store g) 21) = [week_assignment 21 (Finite 1)]"
  "assignments (task_of (assigned_store g) 11) = [week_assignment 21 (Finite 1)]"
  "start_date (task_of (assigned_store g) 11) = Some monday"
  "duration (task_of (assigned_store g) 11) = 5"
  "get_float (task_of (assigned_store g) 11) = 0"
  by (simp_all add: assigned_store_def assign_resource_def calendar_hours_week one_task_store_def
        upd_task_def Let_def split_beta add_assignment_fields week_assignment_def Task_init_def
        Resource_init_def get_float_def)

section \<open>Leveling\<close>

lemma shift_task_as_written: "snd (shift_task as_written u t s) = s"
  by (simp add: shift_task_def as_written_def Let_def split: sum.splits)





section \<open>Deleting a task\<close>

text \<open>
  Claim C3 says that after a task is deleted no other task lists it as a predecessor or
  successor and no resource keeps an assignment of it. \<open>delete_task\<close> takes the task out
  of the project's list and nothing else: B still has A as its predecessor, and the
  resource still holds the assignment of the deleted task.
\<close>

theorem delete_task_dangling_counterexample:
  "11 \<notin> set (tasks (project_of (proj (delete_task 11 (controller_of chain_store))))) \<and>
   predecessors (task_of (proj (delete_task 11 (controller_of chain_store))) 12) = [11] \<and>
   tasks (project_of (proj (delete_task 11 (controller_of (assigned_store as_written))))) = [] \<and>
   resource_assignments
     (resource_of (proj (delete_task 11 (controller_of (assigned_store as_written)))) 21) =
     assignments (task_of (assigned_store as_written) 11) \<and>
   assignments (task_of (assigned_store as_written) 11) = [week_assignment 21 (Finite 1)]"
  by (simp add: delete_task_def save_state_def controller_of_def remove_task_def Let_def
        chain_store_lists assigned_store_fields)

text \<open>
  Claim C3, as amended. Deleting a task removes its first occurrence from the project's
  task list, sets the modified flag when it was there, and pushes a copy of the project
  on the undo stack. No task object and no resource object changes: every predecessor
  list, successor list, assignment list and calendar is as before.
\<close>

theorem delete_task_effect:
  "task_of (proj (delete_task t c)) = task_of (proj c) \<and>
   resource_of (proj (delete_task t c)) = resource_of (proj c) \<and>
   tasks (project_of (proj (delete_task t c))) = remove1 t (tasks (project_of (proj c))) \<and>
   resources (project_of (proj (delete_task t c))) = resources (project_of (proj c)) \<and>
   modified (project_of (proj (delete_task t c))) =
     (t \<in> set (tasks (project_of (proj c))) \<or> modified (project_of (proj c))) \<and>
   undo_stack (delete_task t c) = undo_stack c @ [proj c]"
  by (simp add: delete_task_def save_state_def remove_task_def Let_def remove1_idem)

theorem delete_task_effect_witness:
  "tasks (project_of (proj (delete_task 12 (controller_of chain_store)))) = [11, 13] \<and>
   successors (task_of (proj (delete_task 12 (controller_of chain_store))) 11) = [12] \<and>
   predecessors (task_of (proj (delete_task 12 (controller_of chain_store))) 13) = [12]"
  using delete_task_effect [of 12 "controller_of chain_store"]
  by (simp add: controller_of_def chain_store_lists)

section \<open>Analysis and reports\<close>

lemma get_resource_utilization_loop_raises:
  assumes "r \<in> set rs" and "resource_assignments (resource_of s r) \<noteq> []"
  shows "\<exists>e. get_resource_utilization_loop s rs m = Inl e"
  using assms
proof (induction rs arbitrary: m)
  case Nil
  then show ?case by simp
next
  case (Cons x rs)
  show ?case
  proof (cases "resource_assignments (resource_of s x) \<noteq> []")
    case True
    then show ?thesis by simp
  next
    case False
    with Cons.prems have "r \<in> set rs" by auto
    from Cons.IH [OF this Cons.prems(2)] False show ?thesis
      by (auto simp: Let_def split: sum.splits)
  qed
qed

lemma get_resource_utilization_raises:
  assumes "r \<in> set (resources (project_of s))" and "resource_assignments (resource_of s r) \<noteq> []"
  shows "\<exists>e. get_resource_utilization s = Inl e"
  unfolding get_resource_utilization_def
  using assms by (rule get_resource_utilization_loop_raises)

lemma analyze_project_raises:
  assumes "r \<in> set (resources (project_of (proj c)))"
    and "resource_assignments (resource_of (proj c) r) \<noteq> []"
  shows "\<exists>e. fst (analyze_project g c) = Inl e"
proof -
  from get_resource_utilization_raises [OF assms]
  obtain e where "get_resource_utilization (proj c) = Inl e" ..
  then show ?thesis
    by (cases "get_project_duration (proj c)") (simp_all add: analyze_project_def Let_def)
qed

lemma assigned_store_duration:
  "get_project_duration (assigned_store g) = Inr 5"
  by (simp add: get_project_duration_def assigned_store_fields get_end_date_def add_days_def
        valid_datetime_def MAX_DATETIME_def timedelta_days_def monday_def DAY_def)

text \<open>
  Claim C5 says that no report or analysis fails on a project with a task and consistent
  assignments. With one task, one resource and one assignment, on the task and on the
  resource, \<open>get_resource_utilization\<close> reads the attribute \<open>hours\<close> of the assignment
  dict: \<open>analyze_project\<close> and \<open>generate_resource_report\<close> raise \<open>AttributeError\<close>. Any
  resource of the project with an assignment has this effect
  (\<open>analyze_project_raises\<close>).
\<close>

theorem analyze_project_attribute_error:
  "fst (analyze_project as_written (controller_of (assigned_store as_written))) = Inl AttributeError \<and>
   fst (generate_resource_report (controller_of (assigned_store as_written))) = Inl AttributeError \<and>
   fst (analyze_project with_timedelta (controller_of (assigned_store with_timedelta))) = Inl AttributeError"
  by (simp add: analyze_project_def generate_resource_report_def controller_of_def
        assigned_store_duration get_resource_utilization_def assigned_store_fields Let_def)

section \<open>What the analyses write\<close>

lemma same_but_schedule_refl: "same_but_schedule s s"
  by (simp add: same_but_schedule_def)

lemma same_but_schedule_trans:
  assumes "same_but_schedule s s1" and "same_but_schedule s1 s2"
  shows "same_but_schedule s s2"
proof -
  have "task_of s2 t =
        (task_of s t)\<lparr>early_start := early_start (task_of s2 t),
                       early_finish := early_finish (task_of s2 t),
                       late_start := late_start (task_of s2 t),
                       late_finish := late_finish (task_of s2 t)\<rparr>" for t
  proof -
    from assms(1) have 1: "task_of s1 t =
        (task_of s t)\<lparr>early_start := early_start (task_of s1 t),
                       early_finish := early_finish (task_of s1 t),
                       late_start := late_start (task_of s1 t),
                       late_finish := late_finish (task_of s1 t)\<rparr>"
      by (simp add: same_but_schedule_def)
    from assms(2) have 2: "task_of s2 t =
        (task_of s1 t)\<lparr>early_start := early_start (task_of s2 t),
                       early_finish := early_finish (task_of s2 t),
                       late_start := late_start (task_of s2 t),
                       late_finish := late_finish (task_of s2 t)\<rparr>"
      by (simp add: same_but_schedule_def)
    show ?thesis
      by (subst 2, subst 1) simp
  qed
  then show ?thesis
    using assms by (simp add: same_but_schedule_def)
qed

lemma same_but_schedule_upd:
  assumes "\<And>x. f x = x\<lparr>early_start := early_start (f x), early_finish := early_finish (f x),
                          late_start := late_start (f x), late_finish := late_finish (f x)\<rparr>"
  shows "same_but_schedule s (upd_task t f s)"
  using assms [of "task_of s t"]
  by (simp add: same_but_schedule_def upd_task_def)

lemma same_but_schedule_fold:
  assumes "\<And>x s. same_but_schedule s (f x s)"
  shows "same_but_schedule s (fold f xs s)"
proof (induction xs arbitrary: s)
  case Nil
  show ?case by (simp add: same_but_schedule_refl)
next
  case (Cons x xs)
  have "same_but_schedule s (f x s)" by (rule assms)
  moreover have "same_but_schedule (f x s) (fold f xs (f x s))" by (rule Cons.IH)
  ultimately show ?case
    by (simp add: same_but_schedule_trans)
qed

lemma init_early_frame: "same_but_schedule s (init_early t s)"
  unfolding init_early_def by (rule same_but_schedule_upd) simp

lemma forward_relax_frame: "same_but_schedule s (forward_relax t x s)"
  unfolding forward_relax_def Let_def
  by (auto intro!: same_but_schedule_refl same_but_schedule_upd
        same_but_schedule_trans [OF same_but_schedule_upd same_but_schedule_upd])

lemma init_late_frame: "same_but_schedule s (init_late d t s)"
  unfolding init_late_def Let_def
  by (auto intro!: same_but_schedule_trans [OF same_but_schedule_upd same_but_schedule_upd])

lemma backward_relax_frame: "same_but_schedule s (backward_relax t x s)"
  unfolding backward_relax_def Let_def
  by (auto intro!: same_but_schedule_refl
        same_but_schedule_trans [OF same_but_schedule_upd same_but_schedule_upd])

lemma forward_pass_frame: "same_but_schedule s (forward_pass s)"
  unfolding forward_pass_def
  by (intro same_but_schedule_fold forward_relax_frame)

lemma backward_pass_frame: "same_but_schedule s (backward_pass s)"
  unfolding backward_pass_def
  by (intro same_but_schedule_fold backward_relax_frame)

lemma calculate_critical_path_frame:
  "same_but_schedule s (snd (calculate_critical_path s))"
proof -
  let ?ts = "tasks (project_of s)"
  let ?s1 = "fold init_early ?ts s"
  let ?s2 = "forward_pass ?s1"
  have 2: "same_but_schedule s ?s2"
    by (intro same_but_schedule_trans [OF same_but_schedule_fold forward_pass_frame] init_early_frame)
  show ?thesis
  proof (cases "py_max (map (\<lambda>t. early_finish (task_of ?s2 t)) ?ts)")
    case (Inl e)
    with 2 show ?thesis by (simp add: calculate_critical_path_def Let_def)
  next
    case (Inr d)
    have "same_but_schedule ?s2 (backward_pass (fold (init_late d) ?ts ?s2))"
      by (intro same_but_schedule_trans [OF same_but_schedule_fold backward_pass_frame] init_late_frame)
    with 2 have "same_but_schedule s (backward_pass (fold (init_late d) ?ts ?s2))"
      by (rule same_but_schedule_trans)
    with Inr show ?thesis by (simp add: calculate_critical_path_def Let_def)
  qed
qed

lemma analyze_schedule_risks_proj:
  "proj (snd (analyze_schedule_risks c)) = snd (calculate_critical_path (proj c))"
  by (auto simp: analyze_schedule_risks_def Let_def split: prod.splits sum.splits)

lemma analyze_project_proj:
  "proj (snd (analyze_project g c)) = proj c \<or>
   proj (snd (analyze_project g c)) = snd (calculate_critical_path (proj c)) \<or>
   proj (snd (analyze_project g c)) =
     snd (calculate_critical_path (snd (calculate_critical_path (proj c))))"
  by (auto simp: analyze_project_def find_resource_conflicts_def analyze_schedule_risks_def Let_def
        split: prod.splits sum.splits)


lemma same_but_schedule_fields:
  assumes "same_but_schedule s s'"
  shows "duration (task_of s' t) = duration (task_of s t)"
    and "start_date (task_of s' t) = start_date (task_of s t)"
    and "predecessors (task_of s' t) = predecessors (task_of s t)"
    and "successors (task_of s' t) = successors (task_of s t)"
    and "assignments (task_of s' t) = assignments (task_of s t)"
    and "priority (task_of s' t) = priority (task_of s t)"
    and "project_of s' = project_of s"
    and "resource_of s' = resource_of s"
proof -
  from assms have eq: "task_of s' t =
      (task_of s t)\<lparr>early_start := early_start (task_of s' t),
                     early_finish := early_finish (task_of s' t),
                     late_start := late_start (task_of s' t),
                     late_finish := late_finish (task_of s' t)\<rparr>"
    by (simp add: same_but_schedule_def)
  show "duration (task_of s' t) = duration (task_of s t)" by (subst eq) simp
  show "start_date (task_of s' t) = start_date (task_of s t)" by (subst eq) simp
  show "predecessors (task_of s' t) = predecessors (task_of s t)" by (subst eq) simp
  show "successors (task_of s' t) = successors (task_of s t)" by (subst eq) simp
  show "assignments (task_of s' t) = assignments (task_of s t)" by (subst eq) simp
  show "priority (task_of s' t) = priority (task_of s t)" by (subst eq) simp
  from assms show "project_of s' = project_of s" "resource_of s' = resource_of s"
    by (simp_all add: same_but_schedule_def)
qed

lemma chain_schedule:
  assumes "tasks (project_of s) = [a, b, c]" and "distinct [a, b, c]"
    and "duration (task_of s a) = 5" and "duration (task_of s b) = 3" and "duration (task_of s c) = 2"
    and "successors (task_of s a) = [b]" and "successors (task_of s b) = [c]"
    and "successors (task_of s c) = []"
    and "predecessors (task_of s a) = []" and "predecessors (task_of s b) = [a]"
    and "predecessors (task_of s c) = [b]"
  shows "fst (calculate_critical_path s) = Inr [a, b, c]"
    and "early_finish (task_of (snd (calculate_critical_path s)) a) = 5"
    and "early_finish (task_of (snd (calculate_critical_path s)) b) = 8"
    and "early_finish (task_of (snd (calculate_critical_path s)) c) = 10"
  using assms
  by (simp_all add: calculate_critical_path_def forward_pass_def backward_pass_def init_early_def
        init_late_def forward_relax_def backward_relax_def upd_task_def Let_def)

lemma chain_store_twice:
  "early_finish (task_of (snd (calculate_critical_path chain_store)) 11) = 5"
  "early_finish (task_of (snd (calculate_critical_path (snd (calculate_critical_path chain_store)))) 11) = 5"
proof -
  show "early_finish (task_of (snd (calculate_critical_path chain_store)) 11) = 5"
    by (rule chain_schedule(2) [of chain_store 11 12 13]) (simp_all add: chain_store_lists)
  let ?s1 = "snd (calculate_critical_path chain_store)"
  have f: "same_but_schedule chain_store ?s1" by (rule calculate_critical_path_frame)
  show "early_finish (task_of (snd (calculate_critical_path ?s1)) 11) = 5"
    by (rule chain_schedule(2) [of ?s1 11 12 13])
       (simp_all add: same_but_schedule_fields [OF f] chain_store_lists)
qed

lemma chain_store_no_early_error:
  "get_project_duration chain_store = Inr 5"
  "get_resource_utilization chain_store = Inr Map.empty"
  by (simp_all add: get_project_duration_def get_resource_utilization_def get_end_date_def
        chain_store_def no_edges_store_def add_predecessor_def upd_task_def Task_init_def Let_def
        add_days_def valid_datetime_def MAX_DATETIME_def timedelta_days_def DAY_def)

text \<open>
  Claim C6, as amended. The summary, task, resource and timeline reports,
  \<open>generate_reports\<close> and the day-by-day scan for resource conflicts leave the controller
  and everything it holds as it was, whether they return or raise. The schedule-risk
  analysis and \<open>analyze_project\<close> run the critical-path passes: they write the early and
  late fields of the tasks and nothing else, so the start date and the duration of every
  task, every resource with its calendar and assignments, and the project are as before.
\<close>

theorem analyses_frame:
  "snd (generate_summary_report c) = c \<and> snd (generate_task_report c) = c \<and>
   snd (generate_resource_report c) = c \<and> snd (generate_timeline_report c) = c \<and>
   snd (generate_reports c) = c \<and> snd (find_resource_conflicts g c) = c \<and>
   same_but_schedule (proj c) (proj (snd (analyze_schedule_risks c))) \<and>
   same_but_schedule (proj c) (proj (snd (analyze_project g c)))"
proof -
  have 1: "snd (generate_summary_report c) = c"
    by (simp add: generate_summary_report_def Let_def split: sum.splits)
  have 2: "snd (generate_task_report c) = c"
    by (simp add: generate_task_report_def Let_def)
  have 3: "snd (generate_resource_report c) = c"
    by (simp add: generate_resource_report_def)
  have 4: "snd (generate_timeline_report c) = c"
    by (simp add: generate_timeline_report_def Let_def split: sum.splits)
  have 5: "snd (generate_reports c) = c"
    by (auto simp: generate_reports_def generate_summary_report_def generate_task_report_def
          generate_resource_report_def generate_timeline_report_def Let_def
          split: sum.splits prod.splits if_splits)
  have 6: "snd (find_resource_conflicts g c) = c"
    by (simp add: find_resource_conflicts_def)
  have 7: "same_but_schedule (proj c) (proj (snd (analyze_schedule_risks c)))"
    by (simp add: analyze_schedule_risks_proj calculate_critical_path_frame)
  have 8: "same_but_schedule (proj c) (proj (snd (analyze_project g c)))"
    using analyze_project_proj [of g c]
    by (auto intro: same_but_schedule_refl calculate_critical_path_frame
          same_but_schedule_trans [OF calculate_critical_path_frame calculate_critical_path_frame])
  from 1 2 3 4 5 6 7 8 show ?thesis by blast
qed

text \<open>
  Claim C6 says that \<open>analyze_project\<close> and the schedule-risk analysis leave the early
  finish of every task as it was. Task A of the chain has early finish 0 before its
  first analysis and 5 after either call.
\<close>

theorem analyses_write_schedule_counterexample:
  "early_finish (task_of (proj (controller_of chain_store)) 11) = 0 \<and>
   early_finish (task_of (proj (snd (analyze_schedule_risks (controller_of chain_store)))) 11) = 5 \<and>
   early_finish (task_of (proj (snd (analyze_project as_written (controller_of chain_store)))) 11) = 5"
proof -
  have 0: "early_finish (task_of (proj (controller_of chain_store)) 11) = 0"
    by (simp add: controller_of_def chain_store_def no_edges_store_def add_predecessor_def
          upd_task_def Task_init_def Let_def)
  have 1: "early_finish (task_of (proj (snd (analyze_schedule_risks (controller_of chain_store)))) 11) = 5"
    by (simp add: analyze_schedule_risks_proj controller_of_def chain_store_twice)
  have "proj (snd (analyze_project as_written (controller_of chain_store))) =
          snd (calculate_critical_path chain_store) \<or>
        proj (snd (analyze_project as_written (controller_of chain_store))) =
          snd (calculate_critical_path (snd (calculate_critical_path chain_store)))"
    by (auto simp: analyze_project_def find_resource_conflicts_def analyze_schedule_risks_def Let_def
          controller_of_def chain_store_no_early_error split: prod.splits sum.splits)
  then have 2: "early_finish (task_of (proj (snd (analyze_project as_written (controller_of chain_store)))) 11) = 5"
    using chain_store_twice by auto
  from 0 1 2 show ?thesis by blast
qed


theorem analyses_frame_witness:
  "snd (generate_reports (controller_of chain_store)) = controller_of chain_store \<and>
   snd (find_resource_conflicts as_written (controller_of chain_store)) = controller_of chain_store \<and>
   start_date (task_of (proj (snd (analyze_project as_written (controller_of chain_store)))) 11) =
     Some (738885 * DAY) \<and>
   duration (task_of (proj (snd (analyze_project as_written (controller_of chain_store)))) 11) = 5 \<and>
   resource_of (proj (snd (analyze_project as_written (controller_of chain_store)))) =
     resource_of chain_store"
proof -
  note f = analyses_frame [of "controller_of chain_store" as_written]
  from f have s: "same_but_schedule chain_store
      (proj (snd (analyze_project as_written (controller_of chain_store))))"
    by (simp add: controller_of_def)
  have "start_date (task_of chain_store 11) = Some (738885 * DAY)" "duration (task_of chain_store 11) = 5"
    by (simp_all add: chain_store_def no_edges_store_def add_predecessor_def
          upd_task_def Task_init_def Let_def)
  with f same_but_schedule_fields [OF s] show ?thesis by simp
qed


end
